theory Spec2Isabelle
  imports Complex_Main "HOL-Library.Word" "HOL-Library.List_Lexorder"
begin

section \<open>BanglaSTT: the command-line transcription tool of transcribe.py\<close>

text \<open>
  The program is a thin driver around three collaborators: the speech-model library
  (model loading and inference), the decoder executable (run as a subprocess) and the
  locator library that finds the decoder. Their behaviour is a parameter of the model,
  the record \<open>env\<close>; what the program itself changes (the console, the files it writes,
  the process environment, the audio loader it installs) is the record \<open>world\<close>, passed
  through every function and returned updated. A call of a collaborator that may raise
  returns \<open>exception + 'a\<close>, with \<open>Inl\<close> for the exception.

  The exceptions modelled are those of the model library, of the decoder subprocess,
  of the decoding and encoding of text, of the result dictionary and of opening the
  output file. Printing always succeeds, the locator returns a path whenever it can be
  imported, and interrupts of the interpreter (which are not subclasses of
  \<open>Exception\<close>) are left out.
\<close>

subsection \<open>Strings and bytes\<close>

text \<open>
  A Python \<open>str\<close> is a sequence of Unicode code points, a \<open>bytes\<close> object a sequence
  of octets. \<open>py\<close> embeds an ASCII literal as a \<open>str\<close>, \<open>ascii_bytes\<close> as \<open>bytes\<close>.
  Lists of code points are ordered lexicographically, which is the order of Python's string comparison.
\<close>

type_synonym pystr = "nat list"
type_synonym byte = "8 word"

definition py :: "string \<Rightarrow> pystr" where
  "py cs = map of_char cs"

definition ascii_bytes :: "string \<Rightarrow> byte list" where
  "ascii_bytes cs = map of_char cs"

text \<open>\<open>sep.join(xs)\<close>\<close>

fun str_join :: "pystr \<Rightarrow> pystr list \<Rightarrow> pystr" where
  "str_join sep [] = []"
| "str_join sep [x] = x"
| "str_join sep (x # y # ys) = x @ sep @ str_join sep (y # ys)"

text \<open>\<open>str(n)\<close> for an integer: decimal digits, with a sign.\<close>

fun digits :: "nat \<Rightarrow> pystr" where
  "digits n = (if n < 10 then [48 + n] else digits (n div 10) @ [48 + n mod 10])"

definition str_int :: "int \<Rightarrow> pystr" where
  "str_int i = (if i < 0 then 45 # digits (nat (- i)) else digits (nat i))"

text \<open>
  \<open>str.strip()\<close> removes the characters for which \<open>str.isspace\<close> holds from both ends.
\<close>

definition isspace :: "nat \<Rightarrow> bool" where
  "isspace c \<longleftrightarrow>
     (0x09 \<le> c \<and> c \<le> 0x0D) \<or> (0x1C \<le> c \<and> c \<le> 0x20) \<or> c = 0x85 \<or> c = 0xA0 \<or>
     c = 0x1680 \<or> (0x2000 \<le> c \<and> c \<le> 0x200A) \<or> c = 0x2028 \<or> c = 0x2029 \<or>
     c = 0x202F \<or> c = 0x205F \<or> c = 0x3000"

definition strip :: "pystr \<Rightarrow> pystr" where
  "strip s = rev (dropWhile isspace (rev (dropWhile isspace s)))"

text \<open>
  UTF-8. A code point is encoded in one to four octets; the surrogates
  \<open>0xD800..0xDFFF\<close> and values beyond \<open>0x10FFFF\<close> have no encoding (Python raises
  UnicodeEncodeError).
\<close>

definition utf8_encode_cp :: "nat \<Rightarrow> byte list option" where
  "utf8_encode_cp c =
     (if c < 0x80 then Some [of_nat c]
      else if c < 0x800 then Some [of_nat (0xC0 + c div 64), of_nat (0x80 + c mod 64)]
      else if c < 0x10000 then
        (if 0xD800 \<le> c \<and> c \<le> 0xDFFF then None
         else Some [of_nat (0xE0 + c div 4096), of_nat (0x80 + c div 64 mod 64),
                    of_nat (0x80 + c mod 64)])
      else if c < 0x110000 then
        Some [of_nat (0xF0 + c div 262144), of_nat (0x80 + c div 4096 mod 64),
              of_nat (0x80 + c div 64 mod 64), of_nat (0x80 + c mod 64)]
      else None)"

fun utf8_encode :: "pystr \<Rightarrow> byte list option" where
  "utf8_encode [] = Some []"
| "utf8_encode (c # cs) =
     (case utf8_encode_cp c of
        None \<Rightarrow> None
      | Some bs \<Rightarrow> (case utf8_encode cs of None \<Rightarrow> None | Some rest \<Rightarrow> Some (bs @ rest)))"

text \<open>
  Strict decoding, as \<open>bytes.decode()\<close> does with its defaults: the lead octet gives the
  length and the high bits, each continuation octet six more bits, and the sequence is
  accepted when it is the encoding of the code point read (which excludes overlong
  forms, surrogates and values beyond \<open>0x10FFFF\<close>). \<open>None\<close> is UnicodeDecodeError.
\<close>

definition utf8_lead :: "nat \<Rightarrow> (nat \<times> nat) option" where
  "utf8_lead b =
     (if b < 0x80 then Some (1, b)
      else if 0xC0 \<le> b \<and> b < 0xE0 then Some (2, b - 0xC0)
      else if 0xE0 \<le> b \<and> b < 0xF0 then Some (3, b - 0xE0)
      else if 0xF0 \<le> b \<and> b < 0xF8 then Some (4, b - 0xF0)
      else None)"

definition utf8_code_point :: "nat \<Rightarrow> byte list \<Rightarrow> nat" where
  "utf8_code_point hi conts = foldl (\<lambda>acc b. acc * 64 + unat b mod 64) hi conts"

function utf8_decode :: "byte list \<Rightarrow> pystr option" where
  "utf8_decode [] = Some []"
| "utf8_decode (b # bs) =
     (case utf8_lead (unat b) of
        None \<Rightarrow> None
      | Some (n, hi) \<Rightarrow>
          (let c = utf8_code_point hi (take (n - 1) bs)
           in if utf8_encode_cp c = Some (b # take (n - 1) bs)
              then (case utf8_decode (drop (n - 1) bs) of
                      None \<Rightarrow> None
                    | Some cs \<Rightarrow> Some (c # cs))
              else None))"
  by pat_completeness auto
termination
  by (relation "measure length") auto

subsection \<open>Exceptions\<close>

text \<open>
  The exceptions the program tells apart, by the \<open>except\<close> clause that catches them:
  \<open>FileNotFoundError\<close> (and its subclasses), \<open>RuntimeError\<close> (and its subclasses), and
  every other subclass of \<open>Exception\<close>. The argument is \<open>str(e)\<close>.
\<close>

datatype exception =
    FileNotFoundError pystr
  | RuntimeError pystr
  | OtherException pystr

subsection \<open>Collaborators and program state\<close>

record completed_process =
  returncode :: int
  proc_stdout :: "byte list"
  proc_stderr :: "byte list"

type_synonym whisper_model = nat
type_synonym transcribe_result = "pystr \<rightharpoonup> pystr"

text \<open>
  \<open>env\<close>: what the interpreter, the operating system and the libraries answer.
  \<^item> \<open>whisper_installed\<close>: whether \<open>import whisper\<close> succeeds;
  \<^item> \<open>get_ffmpeg_exe\<close>: the path the locator returns, \<open>None\<close> when the locator cannot be
    imported;
  \<^item> \<open>os_path_exists\<close>, \<open>os_path_basename\<close>, \<open>os_path_dirname\<close>, \<open>os_pathsep\<close>,
    \<open>path_suffix\<close> (\<open>Path(p).suffix\<close>): the platform's path functions;
  \<^item> \<open>str_lower\<close>: \<open>str.lower()\<close>, Unicode lower-casing;
  \<^item> \<open>load_model\<close>: \<open>whisper.load_model(name)\<close>;
  \<^item> \<open>whisper_load_audio\<close>: the library's own audio loader;
  \<^item> \<open>model_infer\<close>: inference on decoded samples, given the language;
  \<^item> \<open>subprocess_run\<close>: running a command to completion with captured output, or the
    exception raised when it cannot be started;
  \<^item> \<open>open_write\<close>: the exception \<open>open(path, "w")\<close> raises, if any;
  \<^item> \<open>os_linesep\<close>: the line separator a file opened in text mode writes for a line feed.
\<close>

record env =
  whisper_installed :: bool
  get_ffmpeg_exe :: "pystr option"
  os_path_exists :: "pystr \<Rightarrow> bool"
  os_path_basename :: "pystr \<Rightarrow> pystr"
  os_path_dirname :: "pystr \<Rightarrow> pystr"
  os_pathsep :: pystr
  path_suffix :: "pystr \<Rightarrow> pystr"
  str_lower :: "pystr \<Rightarrow> pystr"
  load_model :: "pystr \<Rightarrow> exception + whisper_model"
  whisper_load_audio :: "pystr \<Rightarrow> exception + real list"
  model_infer :: "whisper_model \<Rightarrow> real list \<Rightarrow> pystr \<Rightarrow> exception + transcribe_result"
  subprocess_run :: "pystr list \<Rightarrow> exception + completed_process"
  open_write :: "pystr \<Rightarrow> exception option"
  os_linesep :: pystr

text \<open>
  \<open>world\<close>: what the program changes.
  \<^item> \<open>stdout\<close>: the strings printed, one per call of \<open>print\<close>, oldest first;
  \<^item> \<open>files\<close>: the content of the files the program writes, by path;
  \<^item> \<open>environ\<close>: \<open>os.environ\<close>;
  \<^item> \<open>load_audio_hook\<close>: the decoder path of the loader installed over
    \<open>whisper.audio.load_audio\<close>, \<open>None\<close> while the library's own loader is in place;
  \<^item> \<open>events\<close>: the calls made into the speech-model library, oldest first.
\<close>

datatype event = LoadModel pystr | Transcribe pystr

record world =
  stdout :: "pystr list"
  files :: "pystr \<rightharpoonup> byte list"
  environ :: "pystr \<rightharpoonup> pystr"
  load_audio_hook :: "pystr option"
  events :: "event list"

definition print :: "pystr \<Rightarrow> world \<Rightarrow> world" where
  "print s w = w\<lparr>stdout := stdout w @ [s]\<rparr>"

definition log_event :: "event \<Rightarrow> world \<Rightarrow> world" where
  "log_event e w = w\<lparr>events := events w @ [e]\<rparr>"

subsection \<open>The audio loader installed over the library's own\<close>

text \<open>
  \<open>np.frombuffer(out, np.int16)\<close>: two octets per sample, low octet first (the byte
  order of the machine, little-endian on the platforms the tool runs on); a buffer of
  odd length raises ValueError.
\<close>

fun frombuffer_int16 :: "byte list \<Rightarrow> exception + 16 word list" where
  "frombuffer_int16 [] = Inr []"
| "frombuffer_int16 [b] =
     Inl (OtherException (py ''buffer size must be a multiple of element size''))"
| "frombuffer_int16 (lo # hi # bs) =
     (case frombuffer_int16 bs of
        Inl e \<Rightarrow> Inl e
      | Inr vs \<Rightarrow> Inr (word_of_nat (unat lo + 256 * unat hi) # vs))"

text \<open>
  \<open>.astype(np.float32) / 32768.0\<close>. A 16-bit integer and its quotient by \<open>2 ^ 15\<close> are
  both values of the 32-bit floating-point format, so the conversion and the division
  are exact and the sample is the rational number itself.
\<close>

definition normalize_sample :: "16 word \<Rightarrow> real" where
  "normalize_sample v = real_of_int (sint v) / 32768"

definition ffmpeg_cmd :: "pystr \<Rightarrow> pystr \<Rightarrow> int \<Rightarrow> pystr list" where
  "ffmpeg_cmd ffmpeg_path file sr =
     [ffmpeg_path, py ''-nostdin'', py ''-threads'', py ''0'', py ''-i'', file,
      py ''-f'', py ''s16le'', py ''-ac'', py ''1'', py ''-acodec'', py ''pcm_s16le'',
      py ''-ar'', str_int sr, py ''-'']"

text \<open>
  \<open>subprocess.run(cmd, capture_output=True, check=True)\<close> raises CalledProcessError on a
  non-zero exit status; the handler decodes the captured standard error and raises
  RuntimeError. An exception of \<open>subprocess.run\<close> itself, and one of the decoding inside
  the handler (UnicodeDecodeError, whose text is abbreviated here), propagate.
\<close>

definition patched_load_audio :: "env \<Rightarrow> pystr \<Rightarrow> pystr \<Rightarrow> int \<Rightarrow> exception + real list" where
  "patched_load_audio env ffmpeg_path file sr =
     (case subprocess_run env (ffmpeg_cmd ffmpeg_path file sr) of
        Inl e \<Rightarrow> Inl e
      | Inr cp \<Rightarrow>
          if returncode cp \<noteq> 0 then
            (case utf8_decode (proc_stderr cp) of
               None \<Rightarrow> Inl (OtherException (py ''invalid utf-8 in standard error''))
             | Some msg \<Rightarrow> Inl (RuntimeError (py ''Failed to load audio: '' @ msg)))
          else
            (case frombuffer_int16 (proc_stdout cp) of
               Inl e \<Rightarrow> Inl e
             | Inr vs \<Rightarrow> Inr (map normalize_sample vs)))"

definition patch_whisper_ffmpeg :: "pystr \<Rightarrow> world \<Rightarrow> world" where
  "patch_whisper_ffmpeg ffmpeg_path w = w\<lparr>load_audio_hook := Some ffmpeg_path\<rparr>"

definition setup_ffmpeg_windows :: "env \<Rightarrow> world \<Rightarrow> pystr option \<times> world" where
  "setup_ffmpeg_windows env w =
     (case get_ffmpeg_exe env of
        Some ffmpeg_path \<Rightarrow>
          (let w1 = w\<lparr>environ := (environ w)(py ''IMAGEIO_FFMPEG_EXE'' \<mapsto> ffmpeg_path)\<rparr>;
               ffmpeg_dir = os_path_dirname env ffmpeg_path;
               old_path = (case environ w1 (py ''PATH'') of None \<Rightarrow> [] | Some v \<Rightarrow> v);
               w2 = w1\<lparr>environ := (environ w1)(py ''PATH'' \<mapsto> ffmpeg_dir @ os_pathsep env @ old_path)\<rparr>
           in (Some ffmpeg_path,
               print (0x2705 # py '' FFmpeg configured: '' @ os_path_basename env ffmpeg_path) w2))
      | None \<Rightarrow>
          (None,
           print ([0x26A0, 0xFE0F] @
                  py ''  Warning: imageio-ffmpeg not found, FFmpeg may not work properly'') w))"

subsection \<open>Input validation\<close>

definition supported_formats :: "pystr set" where
  "supported_formats =
     {py ''.mp3'', py ''.wav'', py ''.m4a'', py ''.mp4'', py ''.webm'', py ''.mpeg'', py ''.mpga''}"

definition validate_audio_file :: "env \<Rightarrow> pystr \<Rightarrow> world \<Rightarrow> bool \<times> world" where
  "validate_audio_file env file_path w =
     (if \<not> os_path_exists env file_path then
        (False, print (0x274C # py '' Error: File '' @ [39] @ file_path @ [39] @
                       py '' does not exist.'') w)
      else
        (let file_extension = str_lower env (path_suffix env file_path)
         in if file_extension \<notin> supported_formats then
              (False,
               print (0x1F4CB # py '' Supported formats: '' @
                      str_join (py '', '') (sorted_list_of_set supported_formats))
                 (print (0x274C # py '' Error: Unsupported audio format '' @ [39] @
                         file_extension @ [39] @ py ''.'') w))
            else (True, w)))"

subsection \<open>The transcription runner\<close>

text \<open>
  \<open>whisper.audio.load_audio(file)\<close> as it is bound at the time of the call: the
  library's own loader, or the one installed over it, called with its default sample
  rate of 16000.
\<close>

definition load_audio :: "env \<Rightarrow> world \<Rightarrow> pystr \<Rightarrow> exception + real list" where
  "load_audio env w file =
     (case load_audio_hook w of
        None \<Rightarrow> whisper_load_audio env file
      | Some ffmpeg_path \<Rightarrow> patched_load_audio env ffmpeg_path file 16000)"

text \<open>
  \<open>model.transcribe(path, language=...)\<close> of the library: it decodes the file with
  \<open>whisper.audio.load_audio\<close> and runs the model on the samples. An exception of the
  loader propagates to the caller.
\<close>

definition whisper_transcribe ::
  "env \<Rightarrow> whisper_model \<Rightarrow> pystr \<Rightarrow> pystr \<Rightarrow> world \<Rightarrow> (exception + transcribe_result) \<times> world" where
  "whisper_transcribe env m audio language w =
     (let w1 = log_event (Transcribe audio) w
      in case load_audio env w1 audio of
           Inl e \<Rightarrow> (Inl e, w1)
         | Inr samples \<Rightarrow> (model_infer env m samples language, w1))"

text \<open>
  Writing a string to a file opened with \<open>open(path, "w", encoding="utf-8")\<close>: opening
  creates or truncates the file; writing replaces each line feed by the platform's
  line separator and encodes the text (UnicodeEncodeError, whose text is abbreviated
  here, when it cannot be encoded; the file is then left empty).
\<close>

definition translate_newlines :: "pystr \<Rightarrow> pystr \<Rightarrow> pystr" where
  "translate_newlines linesep s = concat (map (\<lambda>c. if c = 10 then linesep else [c]) s)"

definition write_text_file :: "env \<Rightarrow> pystr \<Rightarrow> pystr \<Rightarrow> world \<Rightarrow> exception option \<times> world" where
  "write_text_file env path text w =
     (case open_write env path of
        Some e \<Rightarrow> (Some e, w)
      | None \<Rightarrow>
          (case utf8_encode (translate_newlines (os_linesep env) text) of
             None \<Rightarrow>
               (Some (OtherException (py ''surrogates not allowed'')),
                w\<lparr>files := (files w)(path \<mapsto> [])\<rparr>)
           | Some bs \<Rightarrow> (None, w\<lparr>files := (files w)(path \<mapsto> bs)\<rparr>)))"

definition banner :: pystr where
  "banner = replicate 60 61"

text \<open>The body of the \<open>try\<close> statement: the transcript, or the exception that left it.\<close>

definition transcribe_body ::
  "env \<Rightarrow> pystr \<Rightarrow> pystr \<Rightarrow> bool \<Rightarrow> world \<Rightarrow> (exception + pystr) \<times> world" where
  "transcribe_body env audio_path model_size save_output w =
     (let w1 = print (0x1F504 # py '' Loading Whisper model '' @ [39] @ model_size @ [39] @
                      py ''...'') w;
          w2 = log_event (LoadModel model_size) w1
      in case load_model env model_size of
           Inl e \<Rightarrow> (Inl e, w2)
         | Inr m \<Rightarrow>
             (let w3 = print (0x1F3A4 # py '' Transcribing audio file: '' @
                              os_path_basename env audio_path) w2;
                  w4 = print ([0x23F1, 0xFE0F] @
                              py ''  This may take a few minutes depending on file size...'') w3
              in case whisper_transcribe env m audio_path (py ''bn'') w4 of
                   (Inl e, w5) \<Rightarrow> (Inl e, w5)
                 | (Inr result, w5) \<Rightarrow>
                     (case result (py ''text'') of
                        None \<Rightarrow> (Inl (OtherException ([39] @ py ''text'' @ [39])), w5)
                      | Some text \<Rightarrow>
                          (let transcription = strip text;
                               w6 = print (10 # banner) w5;
                               w7 = print (0x1F4DD # py '' BANGLA TRANSCRIPTION:'') w6;
                               w8 = print banner w7;
                               w9 = print transcription w8;
                               w10 = print banner w9
                           in if save_output then
                                (let output_file = py ''output.txt''
                                 in case write_text_file env output_file transcription w10 of
                                      (Some e, w11) \<Rightarrow> (Inl e, w11)
                                    | (None, w11) \<Rightarrow>
                                        (Inr transcription,
                                         print ([10, 0x1F4BE] @ py '' Transcription saved to: '' @
                                                output_file) w11))
                              else (Inr transcription, w10)))))"

text \<open>The three \<open>except\<close> clauses, in the order of the source.\<close>

definition failure_message :: "pystr \<Rightarrow> exception \<Rightarrow> pystr" where
  "failure_message audio_path e =
     (case e of
        FileNotFoundError _ \<Rightarrow>
          0x274C # py '' Error: Audio file '' @ [39] @ audio_path @ [39] @ py '' not found.''
      | RuntimeError msg \<Rightarrow> 0x274C # py '' Error: Failed to load Whisper model. '' @ msg
      | OtherException msg \<Rightarrow> 0x274C # py '' Error during transcription: '' @ msg)"

definition transcribe_audio ::
  "env \<Rightarrow> pystr \<Rightarrow> pystr \<Rightarrow> bool \<Rightarrow> world \<Rightarrow> pystr option \<times> world" where
  "transcribe_audio env audio_path model_size save_output w =
     (case transcribe_body env audio_path model_size save_output w of
        (Inr transcription, w') \<Rightarrow> (Some transcription, w')
      | (Inl e, w') \<Rightarrow> (None, print (failure_message audio_path e) w'))"

subsection \<open>The entry point\<close>

text \<open>The parsed command line (\<open>output_flag\<close> is \<open>args.output\<close>).\<close>

record args =
  audio_file :: pystr
  model :: pystr
  output_flag :: bool
  verbose :: bool

text \<open>
  \<open>main\<close> after \<open>parse_args\<close>; the result is the exit status of the process: the
  argument of \<open>sys.exit\<close>, or 0 when \<open>main\<close> returns. A string is true when it is not
  empty.
\<close>

definition main :: "env \<Rightarrow> args \<Rightarrow> world \<Rightarrow> int \<times> world" where
  "main env a w =
     (let (ffmpeg_path, w1) = setup_ffmpeg_windows env w;
          truthy = (case ffmpeg_path of None \<Rightarrow> False | Some p \<Rightarrow> p \<noteq> []);
          w2 = (if truthy then patch_whisper_ffmpeg (the ffmpeg_path) w1 else w1)
      in case validate_audio_file env (audio_file a) w2 of
           (False, w3) \<Rightarrow> (1, w3)
         | (True, w3) \<Rightarrow>
             (case transcribe_audio env (audio_file a) (model a) (output_flag a) w3 of
                (None, w4) \<Rightarrow> (1, w4)
              | (Some transcription, w4) \<Rightarrow>
                  (let w5 = print ([10, 0x2705] @ py '' Transcription completed successfully!'') w4;
                       w6 = print (0x1F4C1 # py '' Audio file: '' @ audio_file a) w5;
                       w7 = print (0x1F916 # py '' Model used: '' @ model a) w6;
                       w8 = print (0x1F4DD # py '' Text length: '' @
                                   str_int (int (length transcription)) @ py '' characters'') w7
                   in if verbose a then
                        (0, print (0x1F3AF # py '' Language: Bengali (bn)'')
                              (print (0x1F527 # py '' FFmpeg path: '' @
                                      (if truthy then the ffmpeg_path else py ''System default''))
                                 w8))
                      else (0, w8))))"

text \<open>
  The module as a script: the import guard at the top, then \<open>main\<close>.
\<close>

definition program :: "env \<Rightarrow> args \<Rightarrow> world \<Rightarrow> int \<times> world" where
  "program env a w =
     (if \<not> whisper_installed env then
        (1, print (py ''   pip install openai-whisper'')
              (print (0x274C # py '' Error: OpenAI Whisper is not installed. Please install it using:'') w))
      else main env a w)"

text \<open>
  The world in which \<open>main\<close> validates its input and, when the input is accepted,
  calls the transcription runner: after \<open>setup_ffmpeg_windows\<close> and, when that
  returned a non-empty path, \<open>patch_whisper_ffmpeg\<close>.
\<close>

definition world_at_validation :: "env \<Rightarrow> world \<Rightarrow> world" where
  "world_at_validation env w =
     (case setup_ffmpeg_windows env w of
        (None, w1) \<Rightarrow> w1
      | (Some p, w1) \<Rightarrow> if p \<noteq> [] then patch_whisper_ffmpeg p w1 else w1)"

subsection \<open>A concrete environment\<close>

text \<open>
  An environment to run the definitions in: a POSIX platform, ASCII file names, a model
  library that knows the five model sizes and answers every file with the same short
  Bangla transcript surrounded by blanks, a decoder that succeeds with three samples.
\<close>

definition ascii_lower :: "pystr \<Rightarrow> pystr" where
  "ascii_lower s = map (\<lambda>c. if 65 \<le> c \<and> c \<le> 90 then c + 32 else c) s"

definition posix_basename :: "pystr \<Rightarrow> pystr" where
  "posix_basename p = rev (takeWhile (\<lambda>c. c \<noteq> 47) (rev p))"

definition posix_dirname :: "pystr \<Rightarrow> pystr" where
  "posix_dirname p =
     (let head = take (length p - length (posix_basename p)) p
      in if head \<noteq> [] \<and> \<not> list_all (\<lambda>c. c = 47) head
         then rev (dropWhile (\<lambda>c. c = 47) (rev head)) else head)"

text \<open>
  The suffix of a file name: from its last dot, unless that dot is the first or the last
  character of the name.
\<close>

definition name_suffix :: "pystr \<Rightarrow> pystr" where
  "name_suffix name =
     (let k = length (takeWhile (\<lambda>c. c \<noteq> 46) (rev name))
      in if 0 < k \<and> k + 1 < length name then drop (length name - 1 - k) name else [])"

definition example_env :: env where
  "example_env =
     \<lparr>whisper_installed = True,
      get_ffmpeg_exe = Some (py ''/opt/ffmpeg/ffmpeg''),
      os_path_exists = (\<lambda>p. p \<in> set [py ''speech.wav'', py ''SPEECH.WAV'', py ''notes.txt'']),
      os_path_basename = posix_basename,
      os_path_dirname = posix_dirname,
      os_pathsep = py '':'',
      path_suffix = (\<lambda>p. name_suffix (posix_basename p)),
      str_lower = ascii_lower,
      load_model = (\<lambda>name. if name \<in> set [py ''tiny'', py ''base'', py ''small'', py ''medium'',
                                              py ''large'']
                            then Inr 1 else Inl (RuntimeError (py ''Model not found''))),
      whisper_load_audio = (\<lambda>p. Inr []),
      model_infer = (\<lambda>m samples language. Inr [py ''text'' \<mapsto> [32, 0x0986, 0x09AE, 0x09BF, 10]]),
      subprocess_run = (\<lambda>cmd. Inr \<lparr>returncode = 0,
                                    proc_stdout = [0xFF, 0x7F, 0x00, 0x80, 0x00, 0x00],
                                    proc_stderr = []\<rparr>),
      open_write = (\<lambda>p. None),
      os_linesep = [10]\<rparr>"

text \<open>
  Variations: text files whose lines end with carriage return and line feed, as on
  Windows, and a transcript of two lines; a transcript of white space only; a decoder
  that fails after printing a title in Latin-1, which is not UTF-8; a decoder that
  fails because the input file is gone.
\<close>

definition crlf_env :: env where
  "crlf_env =
     example_env\<lparr>os_linesep := [13, 10],
                  model_infer := (\<lambda>m samples language. Inr [py ''text'' \<mapsto> [32, 97, 10, 98, 10]])\<rparr>"

definition silent_env :: env where
  "silent_env =
     example_env\<lparr>model_infer := (\<lambda>m samples language. Inr [py ''text'' \<mapsto> [32, 10, 9]])\<rparr>"

definition undecodable_env :: env where
  "undecodable_env =
     example_env\<lparr>subprocess_run := (\<lambda>cmd. Inr
       \<lparr>returncode = 1, proc_stdout = [],
        proc_stderr = ascii_bytes ''title: Caf'' @ [0xE9, 10] @
                      ascii_bytes ''speech.wav: Invalid data found when processing input''\<rparr>)\<rparr>"

definition vanished_env :: env where
  "vanished_env =
     example_env\<lparr>subprocess_run := (\<lambda>cmd. Inr
       \<lparr>returncode = 1, proc_stdout = [],
        proc_stderr = ascii_bytes ''speech.wav: No such file or directory''\<rparr>)\<rparr>"

definition initial_world :: world where
  "initial_world =
     \<lparr>stdout = [], files = Map.empty, environ = Map.empty, load_audio_hook = None,
      events = []\<rparr>"

section \<open>Verification\<close>

subsection \<open>The state after each operation\<close>

lemma print_fields [simp]:
  "stdout (print s w) = stdout w @ [s]"
  "files (print s w) = files w"
  "environ (print s w) = environ w"
  "load_audio_hook (print s w) = load_audio_hook w"
  "events (print s w) = events w"
  by (simp_all add: print_def)

lemma log_event_fields [simp]:
  "stdout (log_event e w) = stdout w"
  "files (log_event e w) = files w"
  "environ (log_event e w) = environ w"
  "load_audio_hook (log_event e w) = load_audio_hook w"
  "events (log_event e w) = events w @ [e]"
  by (simp_all add: log_event_def)

lemma load_audio_hook_only:
  "load_audio_hook w = load_audio_hook w' \<Longrightarrow> load_audio env w file = load_audio env w' file"
  by (simp add: load_audio_def)

lemma load_audio_print [simp]: "load_audio env (print s w) file = load_audio env w file"
  by (simp add: load_audio_def)

lemma load_audio_log_event [simp]: "load_audio env (log_event e w) file = load_audio env w file"
  by (simp add: load_audio_def)

lemma whisper_transcribe_eq:
  "whisper_transcribe env m audio language w =
     (case load_audio env w audio of
        Inl e \<Rightarrow> Inl e
      | Inr samples \<Rightarrow> model_infer env m samples language,
      log_event (Transcribe audio) w)"
  by (simp add: whisper_transcribe_def Let_def split: sum.splits)

lemma write_text_file_fields [simp]:
  "stdout (snd (write_text_file env path text w)) = stdout w"
  "environ (snd (write_text_file env path text w)) = environ w"
  "load_audio_hook (snd (write_text_file env path text w)) = load_audio_hook w"
  "events (snd (write_text_file env path text w)) = events w"
  by (simp_all add: write_text_file_def split: option.splits)

lemma write_text_file_ok:
  "write_text_file env path text w = (None, w') \<longleftrightarrow>
     open_write env path = None \<and>
     (\<exists>bs. utf8_encode (translate_newlines (os_linesep env) text) = Some bs \<and>
           w' = w\<lparr>files := (files w)(path \<mapsto> bs)\<rparr>)"
  by (auto simp add: write_text_file_def split: option.splits)

lemma transcribe_body_InrD:
  assumes "transcribe_body env audio_path model_size save_output w = (Inr t, w')"
  shows "\<exists>m samples result text.
           load_model env model_size = Inr m \<and>
           load_audio env w audio_path = Inr samples \<and>
           model_infer env m samples (py ''bn'') = Inr result \<and>
           result (py ''text'') = Some text \<and>
           t = strip text \<and>
           (if save_output
            then open_write env (py ''output.txt'') = None \<and>
                 (\<exists>bs. utf8_encode (translate_newlines (os_linesep env) t) = Some bs \<and>
                       files w' = (files w)(py ''output.txt'' \<mapsto> bs))
            else files w' = files w)"
  using assms
  by (auto simp add: transcribe_body_def whisper_transcribe_eq Let_def write_text_file_ok
      split: sum.splits option.splits if_splits prod.splits)

subsection \<open>Input validation\<close>

lemma sorted_supported_formats:
  "sorted_list_of_set supported_formats =
     [py ''.m4a'', py ''.mp3'', py ''.mp4'', py ''.mpeg'', py ''.mpga'', py ''.wav'', py ''.webm'']"
  unfolding supported_formats_def by code_simp

lemma supported_formats_line:
  "str_join (py '', '') (sorted_list_of_set supported_formats) =
     py ''.m4a, .mp3, .mp4, .mpeg, .mpga, .wav, .webm''"
  unfolding sorted_supported_formats by (simp add: py_def)

lemma example_suffixes:
  "ascii_lower (name_suffix (posix_basename (py ''notes.txt''))) = py ''.txt''"
  "ascii_lower (name_suffix (posix_basename (py ''SPEECH.WAV''))) = py ''.wav''"
  "ascii_lower (name_suffix (posix_basename (py ''speech.wav''))) = py ''.wav''"
  by (simp_all add: ascii_lower_def name_suffix_def posix_basename_def py_def)

text \<open>
  C7. A path that does not exist is rejected: the validator returns \<open>False\<close> and prints
  the "does not exist" diagnostic with the path in it, and nothing else; the extension
  is not looked at, since the outcome is the same whatever the suffix and lower-casing
  functions are.
\<close>

theorem validate_missing_file:
  assumes "\<not> os_path_exists env file_path"
  shows "validate_audio_file env file_path w =
           (False, w\<lparr>stdout := stdout w @
              [0x274C # py '' Error: File '' @ [39] @ file_path @ [39] @ py '' does not exist.'']\<rparr>)
         \<and> validate_audio_file (env\<lparr>path_suffix := f, str_lower := g\<rparr>) file_path w =
             validate_audio_file env file_path w"
  using assms by (simp add: validate_audio_file_def print_def)

theorem validate_missing_file_witness:
  "\<not> os_path_exists example_env (py ''missing.mp3'')
   \<and> validate_audio_file example_env (py ''missing.mp3'') initial_world =
       (False, initial_world\<lparr>stdout :=
          [0x274C # py '' Error: File '' @ [39] @ py ''missing.mp3'' @ [39] @
             py '' does not exist.'']\<rparr>)"
proof -
  have h: "\<not> os_path_exists example_env (py ''missing.mp3'')"
    by (simp add: example_env_def py_def)
  from validate_missing_file [OF h, of initial_world] h show ?thesis
    by (simp add: initial_world_def)
qed

text \<open>
  C1. A path that exists and whose lower-cased suffix is not one of the seven allowed
  extensions is rejected: the validator returns \<open>False\<close> and prints the "Unsupported
  audio format" diagnostic, then the line of supported formats, which holds the seven
  extensions in ascending order. The list printed is that of the allow-list: sorted,
  without repetition, with the same elements.
\<close>

theorem validate_unsupported_format:
  assumes "os_path_exists env file_path"
    and "str_lower env (path_suffix env file_path) \<notin> supported_formats"
  shows "validate_audio_file env file_path w =
           (False, w\<lparr>stdout := stdout w @
              [0x274C # py '' Error: Unsupported audio format '' @ [39] @
                 str_lower env (path_suffix env file_path) @ [39] @ py ''.'',
               0x1F4CB # py '' Supported formats: .m4a, .mp3, .mp4, .mpeg, .mpga, .wav, .webm'']\<rparr>)
         \<and> py ''.m4a, .mp3, .mp4, .mpeg, .mpga, .wav, .webm'' =
             str_join (py '', '') (sorted_list_of_set supported_formats)
         \<and> sorted (sorted_list_of_set supported_formats)
         \<and> distinct (sorted_list_of_set supported_formats)
         \<and> set (sorted_list_of_set supported_formats) = supported_formats
         \<and> length (sorted_list_of_set supported_formats) = 7"
proof -
  have fin: "finite supported_formats"
    by (simp add: supported_formats_def)
  have line: "0x1F4CB # py '' Supported formats: '' @
                str_join (py '', '') (sorted_list_of_set supported_formats) =
              0x1F4CB # py '' Supported formats: .m4a, .mp3, .mp4, .mpeg, .mpga, .wav, .webm''"
    unfolding supported_formats_line by (simp add: py_def)
  have run: "validate_audio_file env file_path w =
           (False, w\<lparr>stdout := stdout w @
              [0x274C # py '' Error: Unsupported audio format '' @ [39] @
                 str_lower env (path_suffix env file_path) @ [39] @ py ''.'',
               0x1F4CB # py '' Supported formats: .m4a, .mp3, .mp4, .mpeg, .mpga, .wav, .webm'']\<rparr>)"
    using assms line by (simp add: validate_audio_file_def print_def Let_def)
  have len: "length (sorted_list_of_set supported_formats) = 7"
    unfolding sorted_supported_formats by simp
  from run fin len show ?thesis
    by (simp add: supported_formats_line)
qed

theorem validate_unsupported_format_witness:
  "os_path_exists example_env (py ''notes.txt'')
   \<and> str_lower example_env (path_suffix example_env (py ''notes.txt'')) \<notin> supported_formats
   \<and> validate_audio_file example_env (py ''notes.txt'') initial_world =
       (False, initial_world\<lparr>stdout :=
          [0x274C # py '' Error: Unsupported audio format '' @ [39] @ py ''.txt'' @ [39] @ py ''.'',
           0x1F4CB # py '' Supported formats: .m4a, .mp3, .mp4, .mpeg, .mpga, .wav, .webm'']\<rparr>)"
proof -
  have h1: "os_path_exists example_env (py ''notes.txt'')"
    by (simp add: example_env_def)
  have ext: "str_lower example_env (path_suffix example_env (py ''notes.txt'')) = py ''.txt''"
    by (simp add: example_env_def example_suffixes)
  have h2: "str_lower example_env (path_suffix example_env (py ''notes.txt'')) \<notin> supported_formats"
    unfolding ext by (simp add: supported_formats_def py_def)
  from validate_unsupported_format [OF h1 h2, of initial_world] h1 h2 ext show ?thesis
    by (simp add: initial_world_def)
qed

text \<open>
  C8. A path that exists and whose lower-cased suffix is one of the seven allowed
  extensions is accepted, in every state of the world, so whatever the files hold; and
  on every input the validator leaves the files, the process environment, the installed
  audio loader and the record of library calls as they were, and only adds to the lines
  printed.
\<close>

theorem validate_accepts:
  assumes "os_path_exists env file_path"
    and "str_lower env (path_suffix env file_path) \<in> supported_formats"
  shows "validate_audio_file env file_path w = (True, w)
         \<and> files (snd (validate_audio_file env' file_path' w')) = files w'
         \<and> environ (snd (validate_audio_file env' file_path' w')) = environ w'
         \<and> load_audio_hook (snd (validate_audio_file env' file_path' w')) = load_audio_hook w'
         \<and> events (snd (validate_audio_file env' file_path' w')) = events w'
         \<and> (\<exists>out. stdout (snd (validate_audio_file env' file_path' w')) = stdout w' @ out)"
  using assms by (simp add: validate_audio_file_def print_def Let_def)

theorem validate_accepts_witness:
  "os_path_exists example_env (py ''SPEECH.WAV'')
   \<and> str_lower example_env (path_suffix example_env (py ''SPEECH.WAV'')) \<in> supported_formats
   \<and> validate_audio_file example_env (py ''SPEECH.WAV'')
        (initial_world\<lparr>files := [py ''SPEECH.WAV'' \<mapsto> [0, 1, 2]]\<rparr>) =
       (True, initial_world\<lparr>files := [py ''SPEECH.WAV'' \<mapsto> [0, 1, 2]]\<rparr>)"
proof -
  have h1: "os_path_exists example_env (py ''SPEECH.WAV'')"
    by (simp add: example_env_def)
  have ext: "str_lower example_env (path_suffix example_env (py ''SPEECH.WAV'')) = py ''.wav''"
    by (simp add: example_env_def example_suffixes)
  have h2: "str_lower example_env (path_suffix example_env (py ''SPEECH.WAV'')) \<in> supported_formats"
    unfolding ext by (simp add: supported_formats_def)
  from validate_accepts [OF h1 h2] h1 h2 show ?thesis
    by simp
qed

subsection \<open>Sample conversion\<close>

lemma frombuffer_int16_even:
  "even (length bs) \<Longrightarrow>
     \<exists>vs. frombuffer_int16 bs = Inr vs \<and> length vs = length bs div 2 \<and>
       (\<forall>i<length vs. vs ! i = word_of_nat (unat (bs ! (2 * i)) + 256 * unat (bs ! (2 * i + 1))))"
proof (induction bs rule: frombuffer_int16.induct)
  case 1
  then show ?case by simp
next
  case (2 b)
  then show ?case by simp
next
  case (3 lo hi bs)
  then obtain vs where vs: "frombuffer_int16 bs = Inr vs" "length vs = length bs div 2"
    "\<forall>i<length vs. vs ! i = word_of_nat (unat (bs ! (2 * i)) + 256 * unat (bs ! (2 * i + 1)))"
    by auto
  let ?v = "word_of_nat (unat lo + 256 * unat hi) :: 16 word"
  have "frombuffer_int16 (lo # hi # bs) = Inr (?v # vs)"
    using vs(1) by simp
  moreover have "length (?v # vs) = length (lo # hi # bs) div 2"
    using vs(2) by simp
  moreover have "\<forall>i<length (?v # vs). (?v # vs) ! i =
      word_of_nat (unat ((lo # hi # bs) ! (2 * i)) + 256 * unat ((lo # hi # bs) ! (2 * i + 1)))"
  proof (intro allI impI)
    fix i assume "i < length (?v # vs)"
    then show "(?v # vs) ! i =
      word_of_nat (unat ((lo # hi # bs) ! (2 * i)) + 256 * unat ((lo # hi # bs) ! (2 * i + 1)))"
      using vs(3) by (cases i) simp_all
  qed
  ultimately show ?case by blast
qed

lemma frombuffer_int16_odd:
  "odd (length bs) \<Longrightarrow> \<exists>e. frombuffer_int16 bs = Inl e"
  by (induction bs rule: frombuffer_int16.induct) auto

lemma normalize_sample_range: "- 1 \<le> normalize_sample v \<and> normalize_sample v < 1"
proof -
  have "- (2 ^ 15) \<le> sint v" "sint v < 2 ^ 15"
    using sint_ge [of v] sint_lt [of v] by simp_all
  then have "real_of_int (- (2 ^ 15)) \<le> real_of_int (sint v)"
    "real_of_int (sint v) < real_of_int (2 ^ 15)"
    by (simp_all only: of_int_le_iff of_int_less_iff)
  then show ?thesis
    by (simp add: normalize_sample_def field_simps)
qed

text \<open>
  The sample is an integer of at most sixteen bits divided by \<open>2 ^ 15\<close>: a value of the
  32-bit floating-point format, which has 24 bits of significand.
\<close>

lemma normalize_sample_dyadic:
  "normalize_sample v * 2 ^ 15 = real_of_int (sint v) \<and> \<bar>sint v\<bar> \<le> 2 ^ 15"
proof -
  have "- (2 ^ 15) \<le> sint v" "sint v < 2 ^ 15"
    using sint_ge [of v] sint_lt [of v] by simp_all
  then have "\<bar>sint v\<bar> \<le> 2 ^ 15"
    by linarith
  moreover have "normalize_sample v * 2 ^ 15 = real_of_int (sint v)"
    by (simp add: normalize_sample_def)
  ultimately show ?thesis
    by blast
qed

lemma normalize_values:
  "normalize_sample 32767 = 32767 / 32768"
  "normalize_sample 32767 < 1"
  "normalize_sample (- 32768) = - 1"
  "normalize_sample 0 = 0"
  by (simp_all add: normalize_sample_def)

lemma little_endian_examples:
  "frombuffer_int16 [0xFF, 0x7F, 0x00, 0x80, 0x00, 0x00] = Inr [32767, - 32768, 0]"
  by simp


text \<open>
  C2. When the decoder exits with status 0 and an even number of octets, the loader
  returns one sample for each pair of octets: the pair is read low octet first as a
  signed 16-bit integer \<open>v\<close>, and the sample is \<open>v / 32768\<close>, between \<open>-1\<close> and \<open>1\<close>.
  For every 16-bit value the quotient lies in that range; 32767 gives a value below 1,
  -32768 gives -1 and 0 gives 0.
\<close>

theorem patched_load_audio_samples:
  assumes "subprocess_run env (ffmpeg_cmd ffmpeg_path file sr) = Inr cp"
    and "returncode cp = 0"
    and "even (length (proc_stdout cp))"
  shows "(\<exists>vs. patched_load_audio env ffmpeg_path file sr = Inr (map normalize_sample vs)
            \<and> length vs = length (proc_stdout cp) div 2
            \<and> (\<forall>i<length vs.
                  vs ! i = word_of_nat (unat (proc_stdout cp ! (2 * i)) +
                                        256 * unat (proc_stdout cp ! (2 * i + 1)))
                  \<and> map normalize_sample vs ! i = real_of_int (sint (vs ! i)) / 32768
                  \<and> - 1 \<le> map normalize_sample vs ! i
                  \<and> map normalize_sample vs ! i \<le> 1))
         \<and> normalize_sample v = real_of_int (sint v) / 32768
         \<and> - 1 \<le> normalize_sample v \<and> normalize_sample v \<le> 1
         \<and> sint (32767 :: 16 word) = 32767 \<and> normalize_sample 32767 < 1
         \<and> sint (- 32768 :: 16 word) = - 32768 \<and> normalize_sample (- 32768) = - 1
         \<and> sint (0 :: 16 word) = 0 \<and> normalize_sample 0 = 0"
proof -
  from frombuffer_int16_even [OF assms(3)] obtain vs where
    vs: "frombuffer_int16 (proc_stdout cp) = Inr vs" "length vs = length (proc_stdout cp) div 2"
      "\<forall>i<length vs. vs ! i = word_of_nat (unat (proc_stdout cp ! (2 * i)) +
                                            256 * unat (proc_stdout cp ! (2 * i + 1)))"
    by blast
  have run: "patched_load_audio env ffmpeg_path file sr = Inr (map normalize_sample vs)"
    using assms(1,2) vs(1) by (simp add: patched_load_audio_def)
  have each: "\<forall>i<length vs.
      vs ! i = word_of_nat (unat (proc_stdout cp ! (2 * i)) + 256 * unat (proc_stdout cp ! (2 * i + 1)))
      \<and> map normalize_sample vs ! i = real_of_int (sint (vs ! i)) / 32768
      \<and> - 1 \<le> map normalize_sample vs ! i
      \<and> map normalize_sample vs ! i \<le> 1"
  proof (intro allI impI)
    fix i assume i: "i < length vs"
    have "- 1 \<le> normalize_sample (vs ! i)" "normalize_sample (vs ! i) \<le> 1"
      using normalize_sample_range [of "vs ! i"] by simp_all
    moreover have "normalize_sample (vs ! i) = real_of_int (sint (vs ! i)) / 32768"
      by (simp add: normalize_sample_def)
    ultimately show "vs ! i = word_of_nat (unat (proc_stdout cp ! (2 * i)) +
                                            256 * unat (proc_stdout cp ! (2 * i + 1)))
      \<and> map normalize_sample vs ! i = real_of_int (sint (vs ! i)) / 32768
      \<and> - 1 \<le> map normalize_sample vs ! i
      \<and> map normalize_sample vs ! i \<le> 1"
      using i vs(3) by simp
  qed
  have first: "\<exists>vs. patched_load_audio env ffmpeg_path file sr = Inr (map normalize_sample vs)
            \<and> length vs = length (proc_stdout cp) div 2
            \<and> (\<forall>i<length vs.
                  vs ! i = word_of_nat (unat (proc_stdout cp ! (2 * i)) +
                                        256 * unat (proc_stdout cp ! (2 * i + 1)))
                  \<and> map normalize_sample vs ! i = real_of_int (sint (vs ! i)) / 32768
                  \<and> - 1 \<le> map normalize_sample vs ! i
                  \<and> map normalize_sample vs ! i \<le> 1)"
    using run vs(2) each by blast
  have range: "- 1 \<le> normalize_sample v" "normalize_sample v \<le> 1"
    using normalize_sample_range [of v] by simp_all
  have def: "normalize_sample v = real_of_int (sint v) / 32768"
    by (simp add: normalize_sample_def)
  have vals: "sint (32767 :: 16 word) = 32767" "sint (- 32768 :: 16 word) = - 32768"
    "sint (0 :: 16 word) = 0"
    by simp_all
  from first range def vals normalize_values show ?thesis
    by blast
qed

theorem patched_load_audio_samples_witness:
  "subprocess_run example_env (ffmpeg_cmd (py ''/opt/ffmpeg/ffmpeg'') (py ''speech.wav'') 16000) =
     Inr \<lparr>returncode = 0, proc_stdout = [0xFF, 0x7F, 0x00, 0x80, 0x00, 0x00], proc_stderr = []\<rparr>
   \<and> even (length [0xFF, 0x7F, 0x00, 0x80, 0x00, 0x00 :: byte])
   \<and> patched_load_audio example_env (py ''/opt/ffmpeg/ffmpeg'') (py ''speech.wav'') 16000 =
       Inr [32767 / 32768, - 1, 0]
   \<and> (\<exists>vs. patched_load_audio example_env (py ''/opt/ffmpeg/ffmpeg'') (py ''speech.wav'') 16000 =
             Inr (map normalize_sample vs) \<and> length vs = 3)"
proof -
  let ?cp = "\<lparr>returncode = 0, proc_stdout = [0xFF, 0x7F, 0x00, 0x80, 0x00, 0x00 :: byte],
              proc_stderr = []\<rparr>"
  have h1: "subprocess_run example_env
              (ffmpeg_cmd (py ''/opt/ffmpeg/ffmpeg'') (py ''speech.wav'') 16000) = Inr ?cp"
    by (simp add: example_env_def)
  have h2: "returncode ?cp = 0" by simp
  have h3: "even (length (proc_stdout ?cp))" by simp
  have v: "patched_load_audio example_env (py ''/opt/ffmpeg/ffmpeg'') (py ''speech.wav'') 16000 =
       Inr [32767 / 32768, - 1, 0]"
    by (simp add: patched_load_audio_def example_env_def normalize_sample_def)
  from patched_load_audio_samples [OF h1 h2 h3] obtain vs where
    "patched_load_audio example_env (py ''/opt/ffmpeg/ffmpeg'') (py ''speech.wav'') 16000 =
       Inr (map normalize_sample vs)"
    "length vs = length (proc_stdout ?cp) div 2"
    by blast
  moreover have "length (proc_stdout ?cp) div 2 = 3"
    by simp
  ultimately have e: "\<exists>vs. patched_load_audio example_env (py ''/opt/ffmpeg/ffmpeg'') (py ''speech.wav'') 16000 =
       Inr (map normalize_sample vs) \<and> length vs = 3"
    by (intro exI [of _ vs]) (simp only:)
  have h3': "even (length [0xFF, 0x7F, 0x00, 0x80, 0x00, 0x00 :: byte])" by simp
  from h1 h3' v e show ?thesis
    by (intro conjI)
qed

subsection \<open>The entry point and the runner, step by step\<close>

lemma setup_ffmpeg_windows_fields [simp]:
  "fst (setup_ffmpeg_windows env w) = get_ffmpeg_exe env"
  "files (snd (setup_ffmpeg_windows env w)) = files w"
  "load_audio_hook (snd (setup_ffmpeg_windows env w)) = load_audio_hook w"
  "events (snd (setup_ffmpeg_windows env w)) = events w"
  by (simp_all add: setup_ffmpeg_windows_def Let_def split: option.splits)

lemma patch_whisper_ffmpeg_fields [simp]:
  "stdout (patch_whisper_ffmpeg p w) = stdout w"
  "files (patch_whisper_ffmpeg p w) = files w"
  "environ (patch_whisper_ffmpeg p w) = environ w"
  "load_audio_hook (patch_whisper_ffmpeg p w) = Some p"
  "events (patch_whisper_ffmpeg p w) = events w"
  by (simp_all add: patch_whisper_ffmpeg_def)

lemma world_at_validation_fields [simp]:
  "files (world_at_validation env w) = files w"
  "events (world_at_validation env w) = events w"
  "load_audio_hook (world_at_validation env w) =
     (case get_ffmpeg_exe env of
        None \<Rightarrow> load_audio_hook w
      | Some p \<Rightarrow> if p \<noteq> [] then Some p else load_audio_hook w)"
proof -
  obtain fp w1 where s: "setup_ffmpeg_windows env w = (fp, w1)"
    by (cases "setup_ffmpeg_windows env w")
  from s have "fp = get_ffmpeg_exe env" "files w1 = files w" "events w1 = events w"
    "load_audio_hook w1 = load_audio_hook w"
    using setup_ffmpeg_windows_fields [of env w] by simp_all
  with s show "files (world_at_validation env w) = files w"
    "events (world_at_validation env w) = events w"
    "load_audio_hook (world_at_validation env w) =
     (case get_ffmpeg_exe env of
        None \<Rightarrow> load_audio_hook w
      | Some p \<Rightarrow> if p \<noteq> [] then Some p else load_audio_hook w)"
    by (simp_all add: world_at_validation_def split: option.splits)
qed

lemma validate_audio_file_fst:
  "fst (validate_audio_file env p w) \<longleftrightarrow>
     os_path_exists env p \<and> str_lower env (path_suffix env p) \<in> supported_formats"
  by (simp add: validate_audio_file_def Let_def)

lemma validate_audio_file_True:
  "fst (validate_audio_file env p w) \<Longrightarrow> validate_audio_file env p w = (True, w)"
  by (simp add: validate_audio_file_def Let_def split: if_splits)

lemma validate_audio_file_fields [simp]:
  "files (snd (validate_audio_file env p w)) = files w"
  "environ (snd (validate_audio_file env p w)) = environ w"
  "load_audio_hook (snd (validate_audio_file env p w)) = load_audio_hook w"
  "events (snd (validate_audio_file env p w)) = events w"
  by (simp_all add: validate_audio_file_def Let_def)

lemma main_eq:
  "main env a w =
     (let w2 = world_at_validation env w
      in if \<not> fst (validate_audio_file env (audio_file a) w2)
         then (1, snd (validate_audio_file env (audio_file a) w2))
         else (case transcribe_audio env (audio_file a) (model a) (output_flag a) w2 of
                 (None, w4) \<Rightarrow> (1, w4)
               | (Some transcription, w4) \<Rightarrow>
                   (0, if verbose a then
                         print (0x1F3AF # py '' Language: Bengali (bn)'')
                           (print (0x1F527 # py '' FFmpeg path: '' @
                              (case get_ffmpeg_exe env of
                                 None \<Rightarrow> py ''System default''
                               | Some p \<Rightarrow> if p \<noteq> [] then p else py ''System default''))
                           (print (0x1F4DD # py '' Text length: '' @
                                   str_int (int (length transcription)) @ py '' characters'')
                           (print (0x1F916 # py '' Model used: '' @ model a)
                           (print (0x1F4C1 # py '' Audio file: '' @ audio_file a)
                           (print ([10, 0x2705] @ py '' Transcription completed successfully!'') w4)))))
                       else
                           (print (0x1F4DD # py '' Text length: '' @
                                   str_int (int (length transcription)) @ py '' characters'')
                           (print (0x1F916 # py '' Model used: '' @ model a)
                           (print (0x1F4C1 # py '' Audio file: '' @ audio_file a)
                           (print ([10, 0x2705] @ py '' Transcription completed successfully!'') w4)))))))"
proof -
  obtain fp w1 where s: "setup_ffmpeg_windows env w = (fp, w1)"
    by (cases "setup_ffmpeg_windows env w")
  then have fp: "fp = get_ffmpeg_exe env"
    using setup_ffmpeg_windows_fields(1) [of env w] by simp
  obtain ok w3 where v: "validate_audio_file env (audio_file a) (world_at_validation env w) = (ok, w3)"
    by (cases "validate_audio_file env (audio_file a) (world_at_validation env w)")
  have w3: "ok \<Longrightarrow> w3 = world_at_validation env w"
    using v validate_audio_file_True [of env "audio_file a" "world_at_validation env w"] by simp
  show ?thesis
  proof (cases ok)
    case False
    with s v fp show ?thesis
      by (auto simp add: main_def Let_def world_at_validation_def split: option.splits)
  next
    case True
    with w3 have w3': "w3 = world_at_validation env w" by simp
    obtain r w4 where t: "transcribe_audio env (audio_file a) (model a) (output_flag a)
        (world_at_validation env w) = (r, w4)"
      by (cases "transcribe_audio env (audio_file a) (model a) (output_flag a)
        (world_at_validation env w)")
    from s v fp True w3' t show ?thesis
      by (cases r) (auto simp add: main_def Let_def world_at_validation_def split: option.splits)
  qed
qed

lemma transcribe_body_events:
  "events (snd (transcribe_body env audio_path model_size save_output w)) =
     events w @ [LoadModel model_size] \<or>
   events (snd (transcribe_body env audio_path model_size save_output w)) =
     events w @ [LoadModel model_size, Transcribe audio_path]"
  by (auto simp add: transcribe_body_def whisper_transcribe_eq Let_def
      split: sum.splits option.splits prod.splits
      dest!: arg_cong [where f = "\<lambda>r. events (snd r)"])

lemma transcribe_audio_eq:
  "transcribe_audio env audio_path model_size save_output w =
     (case fst (transcribe_body env audio_path model_size save_output w) of
        Inr t \<Rightarrow> (Some t, snd (transcribe_body env audio_path model_size save_output w))
      | Inl e \<Rightarrow> (None, print (failure_message audio_path e)
                          (snd (transcribe_body env audio_path model_size save_output w))))"
  by (simp add: transcribe_audio_def split: prod.splits sum.splits)

lemma transcribe_audio_events:
  "\<exists>rest. events (snd (transcribe_audio env audio_path model_size save_output w)) =
     events w @ LoadModel model_size # rest"
  using transcribe_body_events [of env audio_path model_size save_output w]
  by (auto simp add: transcribe_audio_eq split: sum.splits)

lemma verbose_prints_events:
  "events (if v then print s1 (print s2 w) else w) = events w"
  by simp


lemma transcribe_body_success:
  assumes "load_model env model_size = Inr m"
    and "load_audio env w audio_path = Inr samples"
    and "model_infer env m samples (py ''bn'') = Inr result"
    and "result (py ''text'') = Some text"
    and "save_output \<Longrightarrow> open_write env (py ''output.txt'') = None"
    and "save_output \<Longrightarrow> utf8_encode (translate_newlines (os_linesep env) (strip text)) = Some bs"
  shows "fst (transcribe_body env audio_path model_size save_output w) = Inr (strip text)"
    and "files (snd (transcribe_body env audio_path model_size save_output w)) =
           (if save_output then (files w)(py ''output.txt'' \<mapsto> bs) else files w)"
    and "stdout (snd (transcribe_body env audio_path model_size save_output w)) =
           stdout w @
           [0x1F504 # py '' Loading Whisper model '' @ [39] @ model_size @ [39] @ py ''...'',
            0x1F3A4 # py '' Transcribing audio file: '' @ os_path_basename env audio_path,
            [0x23F1, 0xFE0F] @ py ''  This may take a few minutes depending on file size...'',
            10 # banner,
            0x1F4DD # py '' BANGLA TRANSCRIPTION:'',
            banner,
            strip text,
            banner] @
           (if save_output then [[10, 0x1F4BE] @ py '' Transcription saved to: output.txt''] else [])"
  using assms
  by (simp_all add: transcribe_body_def whisper_transcribe_eq Let_def write_text_file_def py_def)

lemma transcribe_audio_success:
  assumes "load_model env model_size = Inr m"
    and "load_audio env w audio_path = Inr samples"
    and "model_infer env m samples (py ''bn'') = Inr result"
    and "result (py ''text'') = Some text"
    and "save_output \<Longrightarrow> open_write env (py ''output.txt'') = None"
    and "save_output \<Longrightarrow> utf8_encode (translate_newlines (os_linesep env) (strip text)) = Some bs"
  shows "fst (transcribe_audio env audio_path model_size save_output w) = Some (strip text)"
    and "snd (transcribe_audio env audio_path model_size save_output w) =
           snd (transcribe_body env audio_path model_size save_output w)"
  using transcribe_body_success(1) [OF assms]
  by (simp_all add: transcribe_audio_eq)

lemma transcribe_audio_Some_iff:
  "fst (transcribe_audio env audio_path model_size save_output w) = Some t \<longleftrightarrow>
     fst (transcribe_body env audio_path model_size save_output w) = Inr t"
  by (simp add: transcribe_audio_eq split: sum.splits)

lemma transcribe_audio_None_iff:
  "fst (transcribe_audio env audio_path model_size save_output w) = None \<longleftrightarrow>
     (\<exists>e. fst (transcribe_body env audio_path model_size save_output w) = Inl e)"
  by (simp add: transcribe_audio_eq split: sum.splits)

lemma program_success:
  assumes "whisper_installed env"
    and "fst (validate_audio_file env (audio_file a) (world_at_validation env w))"
    and "fst (transcribe_audio env (audio_file a) (model a) (output_flag a)
              (world_at_validation env w)) = Some t"
  shows "fst (program env a w) = 0"
    and "files (snd (program env a w)) =
           files (snd (transcribe_audio env (audio_file a) (model a) (output_flag a)
                        (world_at_validation env w)))"
    and "stdout (snd (program env a w)) =
           stdout (snd (transcribe_audio env (audio_file a) (model a) (output_flag a)
                        (world_at_validation env w))) @
           [[10, 0x2705] @ py '' Transcription completed successfully!'',
            0x1F4C1 # py '' Audio file: '' @ audio_file a,
            0x1F916 # py '' Model used: '' @ model a,
            0x1F4DD # py '' Text length: '' @ str_int (int (length t)) @ py '' characters''] @
           (if verbose a
            then [0x1F527 # py '' FFmpeg path: '' @
                    (case get_ffmpeg_exe env of
                       None \<Rightarrow> py ''System default''
                     | Some p \<Rightarrow> if p \<noteq> [] then p else py ''System default''),
                  0x1F3AF # py '' Language: Bengali (bn)'']
            else [])"
  using assms
  by (cases "transcribe_audio env (audio_file a) (model a) (output_flag a)
              (world_at_validation env w)";
      simp add: program_def main_eq Let_def)+

lemma translate_newlines_id:
  "linesep = [10] \<or> 10 \<notin> set s \<Longrightarrow> translate_newlines linesep s = s"
  by (induction s) (auto simp add: translate_newlines_def)

lemma transcribe_body_no_save_files:
  "files (snd (transcribe_body env audio_path model_size False w)) = files w"
  by (auto simp add: transcribe_body_def whisper_transcribe_eq Let_def
      split: sum.splits option.splits prod.splits
      dest!: arg_cong [where f = "\<lambda>r. files (snd r)"])

lemma transcribe_audio_no_save_files:
  "files (snd (transcribe_audio env audio_path model_size False w)) = files w"
  by (simp add: transcribe_audio_eq transcribe_body_no_save_files split: sum.splits)

lemma program_exit_code:
  "fst (program env a w) =
     (if \<not> whisper_installed env
         \<or> \<not> fst (validate_audio_file env (audio_file a) (world_at_validation env w))
         \<or> fst (transcribe_audio env (audio_file a) (model a) (output_flag a)
                 (world_at_validation env w)) = None
      then 1 else 0)"
  by (cases "transcribe_audio env (audio_file a) (model a) (output_flag a)
              (world_at_validation env w)";
      cases "fst (transcribe_audio env (audio_file a) (model a) (output_flag a)
              (world_at_validation env w))")
     (simp_all add: program_def main_eq Let_def)

lemma program_files:
  "files (snd (program env a w)) =
     (if whisper_installed env
         \<and> fst (validate_audio_file env (audio_file a) (world_at_validation env w))
      then files (snd (transcribe_audio env (audio_file a) (model a) (output_flag a)
                        (world_at_validation env w)))
      else files w)"
  by (cases "transcribe_audio env (audio_file a) (model a) (output_flag a)
              (world_at_validation env w)";
      cases "fst (transcribe_audio env (audio_file a) (model a) (output_flag a)
              (world_at_validation env w))")
     (simp_all add: program_def main_eq Let_def)


subsection \<open>Exit status\<close>

text \<open>
  C4. The exit status is 1 when the speech-model library cannot be imported, when the
  validator rejects the input, or when the transcription runner returns \<open>None\<close>, and 0
  in every other case, which is success. When the library is missing or the input is
  rejected, no call into the speech-model library is made; when the input is accepted,
  the first call made is the loading of the model.
\<close>

theorem exit_codes:
  "fst (program env a w) =
     (if \<not> whisper_installed env
         \<or> \<not> fst (validate_audio_file env (audio_file a) (world_at_validation env w))
         \<or> fst (transcribe_audio env (audio_file a) (model a) (output_flag a)
                 (world_at_validation env w)) = None
      then 1 else 0)
   \<and> (\<not> whisper_installed env
        \<or> \<not> fst (validate_audio_file env (audio_file a) (world_at_validation env w))
       \<longrightarrow> events (snd (program env a w)) = events w)
   \<and> (whisper_installed env
        \<and> fst (validate_audio_file env (audio_file a) (world_at_validation env w))
       \<longrightarrow> (\<exists>rest. events (snd (program env a w)) = events w @ LoadModel (model a) # rest))"
proof -
  let ?w2 = "world_at_validation env w"
  let ?valid = "fst (validate_audio_file env (audio_file a) ?w2)"
  let ?t = "transcribe_audio env (audio_file a) (model a) (output_flag a) ?w2"
  have code: "fst (program env a w) =
     (if \<not> whisper_installed env \<or> \<not> ?valid \<or> fst ?t = None then 1 else 0)"
    by (rule program_exit_code)
  have no_events: "\<not> whisper_installed env \<or> \<not> ?valid \<longrightarrow> events (snd (program env a w)) = events w"
    by (auto simp add: program_def main_eq Let_def)
  have with_events: "whisper_installed env \<and> ?valid \<longrightarrow>
      (\<exists>rest. events (snd (program env a w)) = events w @ LoadModel (model a) # rest)"
  proof (intro impI)
    assume h: "whisper_installed env \<and> ?valid"
    obtain rest where r: "events (snd ?t) = events ?w2 @ LoadModel (model a) # rest"
      using transcribe_audio_events [of env "audio_file a" "model a" "output_flag a" ?w2] by blast
    have "events (snd (program env a w)) = events (snd ?t)"
      using h by (cases ?t; cases "fst ?t") (simp_all add: program_def main_eq Let_def)
    with r show "\<exists>rest. events (snd (program env a w)) = events w @ LoadModel (model a) # rest"
      by simp
  qed
  from code no_events with_events show ?thesis
    by blast
qed

subsection \<open>Runs in the concrete environment\<close>

lemma load_audio_installed:
  "get_ffmpeg_exe env = Some p \<Longrightarrow> p \<noteq> [] \<Longrightarrow>
     load_audio env (world_at_validation env w) file = patched_load_audio env p file 16000"
  by (simp add: load_audio_def)

lemma ex_load_model: "load_model example_env (py ''tiny'') = Inr 1"
  "load_model example_env (py ''base'') = Inr 1"
  by (simp_all add: example_env_def)

lemma ex_patched:
  "patched_load_audio example_env p f 16000 = Inr [32767 / 32768, - 1, 0]"
  by (simp add: patched_load_audio_def example_env_def normalize_sample_def)

lemma ex_hook:
  "load_audio_hook (world_at_validation (example_env\<lparr>subprocess_run := r, model_infer := i, os_linesep := l\<rparr>) w) =
     Some (py ''/opt/ffmpeg/ffmpeg'')"
  by (simp add: example_env_def py_def)

lemma ex_strip: "strip [32, 0x0986, 0x09AE, 0x09BF, 10] = [0x0986, 0x09AE, 0x09BF]"
  "strip [32, 10, 9] = []"
  by (simp_all add: strip_def isspace_def)

lemma ex_utf8:
  "utf8_encode [0x0986, 0x09AE, 0x09BF] = Some [0xE0, 0xA6, 0x86, 0xE0, 0xA6, 0xAE, 0xE0, 0xA6, 0xBF]"
  by (simp add: utf8_encode_cp_def)

lemma ex_decode_bad:
  "utf8_decode (ascii_bytes ''title: Caf'' @ [0xE9, 10] @ ascii_bytes ''speech.wav: Invalid data found when processing input'') = None"
  by (simp add: ascii_bytes_def utf8_lead_def utf8_code_point_def utf8_encode_cp_def)

lemma ex_decode_good:
  "utf8_decode (ascii_bytes ''speech.wav: No such file or directory'') =
     Some (py ''speech.wav: No such file or directory'')"
  by (simp add: ascii_bytes_def py_def utf8_lead_def utf8_code_point_def utf8_encode_cp_def)

lemma ex_valid:
  "fst (validate_audio_file (example_env\<lparr>subprocess_run := r, model_infer := i, os_linesep := l\<rparr>)
          (py ''speech.wav'') w)"
  "fst (validate_audio_file example_env (py ''speech.wav'') w)"
  "\<not> fst (validate_audio_file example_env (py ''missing.mp3'') w)"
  by (simp_all add: validate_audio_file_fst)
     (simp_all add: example_env_def example_suffixes supported_formats_def, simp add: py_def)

lemma ex_transcribe:
  "fst (transcribe_audio example_env (py ''speech.wav'') (py ''tiny'') save
          (world_at_validation example_env w)) = Some [0x0986, 0x09AE, 0x09BF]"
proof -
  have la: "load_audio example_env (world_at_validation example_env w) (py ''speech.wav'') =
              Inr [32767 / 32768, - 1, 0]"
    by (subst load_audio_installed [where p = "py ''/opt/ffmpeg/ffmpeg''"])
       (simp_all add: ex_patched, simp_all add: example_env_def py_def)
  have mi: "model_infer example_env 1 [32767 / 32768, - 1, 0] (py ''bn'') =
              Inr [py ''text'' \<mapsto> [32, 0x0986, 0x09AE, 0x09BF, 10]]"
    by (simp add: example_env_def)
  have tx: "[py ''text'' \<mapsto> [32, 0x0986, 0x09AE, 0x09BF, 10 :: nat]] (py ''text'') =
              Some [32, 0x0986, 0x09AE, 0x09BF, 10]"
    by simp
  have ow: "save \<Longrightarrow> open_write example_env (py ''output.txt'') = None"
    by (simp add: example_env_def)
  have en: "save \<Longrightarrow> utf8_encode (translate_newlines (os_linesep example_env)
                (strip [32, 0x0986, 0x09AE, 0x09BF, 10])) =
              Some [0xE0, 0xA6, 0x86, 0xE0, 0xA6, 0xAE, 0xE0, 0xA6, 0xBF]"
    by (simp add: ex_strip translate_newlines_def utf8_encode_cp_def)
  from transcribe_audio_success(1) [OF ex_load_model(1) la mi tx ow en] show ?thesis
    by (simp add: ex_strip)
qed

theorem exit_codes_witness:
  "\<not> fst (validate_audio_file example_env (py ''missing.mp3'')
            (world_at_validation example_env initial_world))
   \<and> fst (program example_env
            \<lparr>audio_file = py ''missing.mp3'', model = py ''base'', output_flag = False,
             verbose = False\<rparr> initial_world) = 1
   \<and> events (snd (program example_env
            \<lparr>audio_file = py ''missing.mp3'', model = py ''base'', output_flag = False,
             verbose = False\<rparr> initial_world)) = []
   \<and> whisper_installed example_env
   \<and> fst (validate_audio_file example_env (py ''speech.wav'')
            (world_at_validation example_env initial_world))
   \<and> fst (program example_env
            \<lparr>audio_file = py ''speech.wav'', model = py ''tiny'', output_flag = False,
             verbose = False\<rparr> initial_world) = 0"
proof -
  let ?missing = "\<lparr>audio_file = py ''missing.mp3'', model = py ''base'', output_flag = False,
             verbose = False\<rparr>"
  let ?speech = "\<lparr>audio_file = py ''speech.wav'', model = py ''tiny'', output_flag = False,
             verbose = False\<rparr>"
  have inst: "whisper_installed example_env"
    by (simp add: example_env_def)
  have v1: "\<not> fst (validate_audio_file example_env (py ''missing.mp3'')
            (world_at_validation example_env initial_world))"
    by (rule ex_valid(3))
  have v2: "fst (validate_audio_file example_env (py ''speech.wav'')
            (world_at_validation example_env initial_world))"
    by (rule ex_valid(2))
  from exit_codes [of example_env ?missing initial_world] v1
  have m: "fst (program example_env ?missing initial_world) = 1"
    "events (snd (program example_env ?missing initial_world)) = []"
    by (simp_all add: initial_world_def)
  from exit_codes [of example_env ?speech initial_world] inst v2
    ex_transcribe [of False initial_world]
  have s: "fst (program example_env ?speech initial_world) = 0"
    by simp
  from v1 m inst v2 s show ?thesis
    by (intro conjI)
qed


text \<open>
  C9. Without the persistence flag a run leaves every file as it was: none is created
  and none is changed, whether the run ends in success or in any of the failures.
\<close>

theorem no_output_file_without_flag:
  assumes "\<not> output_flag a"
  shows "files (snd (program env a w)) = files w"
  using assms by (simp add: program_files transcribe_audio_no_save_files)


theorem no_output_file_without_flag_witness:
  "\<not> output_flag \<lparr>audio_file = py ''speech.wav'', model = py ''tiny'', output_flag = False,
                   verbose = False\<rparr>
   \<and> files (snd (program example_env
        \<lparr>audio_file = py ''speech.wav'', model = py ''tiny'', output_flag = False,
         verbose = False\<rparr>
        (initial_world\<lparr>files := [py ''output.txt'' \<mapsto> [1, 2, 3]]\<rparr>))) =
       [py ''output.txt'' \<mapsto> [1, 2, 3]]
   \<and> files (snd (program example_env
        \<lparr>audio_file = py ''missing.mp3'', model = py ''tiny'', output_flag = False,
         verbose = False\<rparr> initial_world)) = Map.empty"
proof -
  have a: "\<not> output_flag \<lparr>audio_file = py ''speech.wav'', model = py ''tiny'', output_flag = False,
                   verbose = False\<rparr>"
    by simp
  have b: "\<not> output_flag \<lparr>audio_file = py ''missing.mp3'', model = py ''tiny'', output_flag = False,
                   verbose = False\<rparr>"
    by simp
  from no_output_file_without_flag [OF a, of example_env
         "initial_world\<lparr>files := [py ''output.txt'' \<mapsto> [1, 2, 3]]\<rparr>"]
       no_output_file_without_flag [OF b, of example_env initial_world] a
  show ?thesis
    by (simp add: initial_world_def)
qed

subsection \<open>The output file\<close>

text \<open>
  C5 (amended). When the persistence flag is set and the runner returns a transcript,
  the model was loaded, the audio decoded and the inference returned a result with a
  text, the transcript is that text stripped, and the file \<open>output.txt\<close> holds
  afterwards the UTF-8 encoding of the transcript in which each line feed is written
  as the platform's line separator, and nothing else, whatever it held before; no
  other file has changed. Where the separator is the line feed, or the transcript has
  no line feed, these are the octets of the UTF-8 encoding of the transcript itself.
\<close>

theorem output_file_written:
  assumes "transcribe_audio env audio_path model_size True w = (Some t, w')"
  shows "\<exists>m samples result text bs.
           load_model env model_size = Inr m \<and>
           load_audio env w audio_path = Inr samples \<and>
           model_infer env m samples (py ''bn'') = Inr result \<and>
           result (py ''text'') = Some text \<and>
           t = strip text \<and>
           utf8_encode (translate_newlines (os_linesep env) t) = Some bs \<and>
           files w' = (files w)(py ''output.txt'' \<mapsto> bs) \<and>
           (os_linesep env = [10] \<or> 10 \<notin> set t \<longrightarrow> utf8_encode t = Some bs)"
proof -
  from assms have "transcribe_body env audio_path model_size True w = (Inr t, w')"
    by (auto simp add: transcribe_audio_def split: prod.splits sum.splits)
  from transcribe_body_InrD [OF this] obtain m samples res raw bs where
    h: "load_model env model_size = Inr m" "load_audio env w audio_path = Inr samples"
       "model_infer env m samples (py ''bn'') = Inr res" "res (py ''text'') = Some raw"
       "t = strip raw"
       "utf8_encode (translate_newlines (os_linesep env) t) = Some bs"
       "files w' = (files w)(py ''output.txt'' \<mapsto> bs)"
    by auto
  have "os_linesep env = [10] \<or> 10 \<notin> set t \<longrightarrow> utf8_encode t = Some bs"
    using h(6) translate_newlines_id [of "os_linesep env" t] by auto
  with h show ?thesis
    by blast
qed


theorem output_file_written_witness:
  "transcribe_audio example_env (py ''speech.wav'') (py ''tiny'') True
     (world_at_validation example_env
        (initial_world\<lparr>files := [py ''output.txt'' \<mapsto> [1, 2, 3]]\<rparr>)) =
     (Some [0x0986, 0x09AE, 0x09BF],
      snd (transcribe_audio example_env (py ''speech.wav'') (py ''tiny'') True
        (world_at_validation example_env
           (initial_world\<lparr>files := [py ''output.txt'' \<mapsto> [1, 2, 3]]\<rparr>))))
   \<and> files (snd (transcribe_audio example_env (py ''speech.wav'') (py ''tiny'') True
        (world_at_validation example_env
           (initial_world\<lparr>files := [py ''output.txt'' \<mapsto> [1, 2, 3]]\<rparr>)))) =
       [py ''output.txt'' \<mapsto> [0xE0, 0xA6, 0x86, 0xE0, 0xA6, 0xAE, 0xE0, 0xA6, 0xBF]]"
proof -
  let ?w = "world_at_validation example_env
        (initial_world\<lparr>files := [py ''output.txt'' \<mapsto> [1, 2, 3]]\<rparr>)"
  let ?r = "transcribe_audio example_env (py ''speech.wav'') (py ''tiny'') True ?w"
  have h: "?r = (Some [0x0986, 0x09AE, 0x09BF], snd ?r)"
    using ex_transcribe [of True "initial_world\<lparr>files := [py ''output.txt'' \<mapsto> [1, 2, 3]]\<rparr>"]
    by (metis prod.collapse)
  have sep: "os_linesep example_env = [10]"
    by (simp add: example_env_def)
  from output_file_written [OF h] sep obtain bs where
    bs: "utf8_encode [0x0986, 0x09AE, 0x09BF] = Some bs"
        "files (snd ?r) = (files ?w)(py ''output.txt'' \<mapsto> bs)"
    by auto
  from bs(1) have "bs = [0xE0, 0xA6, 0x86, 0xE0, 0xA6, 0xAE, 0xE0, 0xA6, 0xBF]"
    unfolding ex_utf8 by simp
  with bs(2) have "files (snd ?r) =
      [py ''output.txt'' \<mapsto> [0xE0, 0xA6, 0x86, 0xE0, 0xA6, 0xAE, 0xE0, 0xA6, 0xBF]]"
    by (simp add: initial_world_def)
  with h show ?thesis
    by (intro conjI)
qed

text \<open>
  The claim as it is written, that the file holds the UTF-8 encoding of the transcript
  itself, fails where the line separator is not the line feed: the transcript
  \<open>a\<close>, line feed, \<open>b\<close> is written as \<open>a\<close>, carriage return, line feed, \<open>b\<close>.
\<close>

theorem output_file_crlf_counterexample:
  "fst (transcribe_audio crlf_env (py ''speech.wav'') (py ''base'') True initial_world) =
     Some [97, 10, 98]
   \<and> files (snd (transcribe_audio crlf_env (py ''speech.wav'') (py ''base'') True initial_world))
        (py ''output.txt'') = Some [97, 13, 10, 98]
   \<and> utf8_encode [97, 10, 98] = Some [97, 10, 98]
   \<and> files (snd (transcribe_audio crlf_env (py ''speech.wav'') (py ''base'') True initial_world))
        (py ''output.txt'') \<noteq> utf8_encode [97, 10, 98]"
proof -
  have lm: "load_model crlf_env (py ''base'') = Inr 1"
    by (simp add: crlf_env_def example_env_def)
  have la: "load_audio crlf_env initial_world (py ''speech.wav'') = Inr []"
    by (simp add: load_audio_def initial_world_def crlf_env_def example_env_def)
  have mi: "model_infer crlf_env 1 [] (py ''bn'') = Inr [py ''text'' \<mapsto> [32, 97, 10, 98, 10]]"
    by (simp add: crlf_env_def)
  have tx: "[py ''text'' \<mapsto> [32, 97, 10, 98, 10 :: nat]] (py ''text'') = Some [32, 97, 10, 98, 10]"
    by simp
  have st: "strip [32, 97, 10, 98, 10] = [97, 10, 98]"
    by (simp add: strip_def isspace_def)
  have ow: "True \<Longrightarrow> open_write crlf_env (py ''output.txt'') = None"
    by (simp add: crlf_env_def example_env_def)
  have en: "True \<Longrightarrow> utf8_encode (translate_newlines (os_linesep crlf_env)
              (strip [32, 97, 10, 98, 10])) = Some [97, 13, 10, 98]"
    by (simp add: st translate_newlines_def utf8_encode_cp_def crlf_env_def)
  have r: "fst (transcribe_audio crlf_env (py ''speech.wav'') (py ''base'') True initial_world) =
     Some [97, 10, 98]"
    using transcribe_audio_success(1) [OF lm la mi tx ow en] by (simp add: st)
  have "files (snd (transcribe_audio crlf_env (py ''speech.wav'') (py ''base'') True initial_world)) =
     (files initial_world)(py ''output.txt'' \<mapsto> [97, 13, 10, 98])"
    using transcribe_audio_success(2) [OF lm la mi tx ow en]
      transcribe_body_success(2) [OF lm la mi tx ow en] by simp
  then have f: "files (snd (transcribe_audio crlf_env (py ''speech.wav'') (py ''base'') True
      initial_world)) (py ''output.txt'') = Some [97, 13, 10, 98]"
    by simp
  have u: "utf8_encode [97, 10, 98] = Some [97, 10, 98]"
    by (simp add: utf8_encode_cp_def)
  from r f u show ?thesis
    by simp
qed

subsection \<open>An empty transcript\<close>

text \<open>
  C10. When the library is present, the input is accepted, the model loads, the audio
  is decoded and the inference returns a text that strips to the empty string (and,
  with the persistence flag, the output file can be opened), the runner returns the
  empty string and not \<open>None\<close>: the exit status is 0, the four lines of the summary are
  printed with a text length of 0, and with the persistence flag \<open>output.txt\<close> is
  written empty. In every accepted run the exit status is 1 exactly when the runner
  returns \<open>None\<close>.
\<close>

theorem empty_transcript_is_success:
  assumes "whisper_installed env"
    and "os_path_exists env (audio_file a)"
    and "str_lower env (path_suffix env (audio_file a)) \<in> supported_formats"
    and "load_model env (model a) = Inr m"
    and "load_audio env (world_at_validation env w) (audio_file a) = Inr samples"
    and "model_infer env m samples (py ''bn'') = Inr result"
    and "result (py ''text'') = Some text"
    and "strip text = []"
    and "output_flag a \<Longrightarrow> open_write env (py ''output.txt'') = None"
  shows "fst (transcribe_audio env (audio_file a) (model a) (output_flag a)
              (world_at_validation env w)) = Some []
         \<and> fst (program env a w) = 0
         \<and> (\<exists>before after. stdout (snd (program env a w)) =
               before @
               [[10, 0x2705] @ py '' Transcription completed successfully!'',
                0x1F4C1 # py '' Audio file: '' @ audio_file a,
                0x1F916 # py '' Model used: '' @ model a,
                0x1F4DD # py '' Text length: 0 characters''] @ after)
         \<and> files (snd (program env a w)) =
             (if output_flag a then (files w)(py ''output.txt'' \<mapsto> []) else files w)
         \<and> (whisper_installed env' \<and>
              fst (validate_audio_file env' (audio_file a') (world_at_validation env' w')) \<longrightarrow>
              (fst (program env' a' w') = 1 \<longleftrightarrow>
               fst (transcribe_audio env' (audio_file a') (model a') (output_flag a')
                      (world_at_validation env' w')) = None))"
proof -
  let ?w2 = "world_at_validation env w"
  let ?t = "transcribe_audio env (audio_file a) (model a) (output_flag a) ?w2"
  have enc: "output_flag a \<Longrightarrow>
      utf8_encode (translate_newlines (os_linesep env) (strip text)) = Some []"
    using assms(8) by (simp add: translate_newlines_def)
  note ok = assms(4-7) assms(9) enc
  have t: "fst ?t = Some []"
    using transcribe_audio_success(1) [OF ok] assms(8) by simp
  have valid: "fst (validate_audio_file env (audio_file a) ?w2)"
    using assms(2,3) by (simp add: validate_audio_file_fst)
  have code: "fst (program env a w) = 0"
    using program_success(1) [OF assms(1) valid t] .
  have "files (snd (program env a w)) = files (snd ?t)"
    using program_success(2) [OF assms(1) valid t] .
  also have "\<dots> = files (snd (transcribe_body env (audio_file a) (model a) (output_flag a) ?w2))"
    using transcribe_audio_success(2) [OF ok] by simp
  also have "\<dots> = (if output_flag a then (files w)(py ''output.txt'' \<mapsto> []) else files w)"
    using transcribe_body_success(2) [OF ok] by simp
  finally have fs: "files (snd (program env a w)) =
      (if output_flag a then (files w)(py ''output.txt'' \<mapsto> []) else files w)" .
  have "str_int (int (length ([] :: pystr))) = py ''0''"
    by (simp add: str_int_def py_def)
  then have out: "\<exists>before after. stdout (snd (program env a w)) =
               before @
               [[10, 0x2705] @ py '' Transcription completed successfully!'',
                0x1F4C1 # py '' Audio file: '' @ audio_file a,
                0x1F916 # py '' Model used: '' @ model a,
                0x1F4DD # py '' Text length: 0 characters''] @ after"
    using program_success(3) [OF assms(1) valid t] by (simp add: py_def) blast
  have only: "whisper_installed env' \<and>
              fst (validate_audio_file env' (audio_file a') (world_at_validation env' w')) \<longrightarrow>
              (fst (program env' a' w') = 1 \<longleftrightarrow>
               fst (transcribe_audio env' (audio_file a') (model a') (output_flag a')
                      (world_at_validation env' w')) = None)"
    by (simp add: program_exit_code)
  from t code out fs only show ?thesis
    by blast
qed

theorem empty_transcript_is_success_witness:
  "whisper_installed silent_env
   \<and> os_path_exists silent_env (py ''speech.wav'')
   \<and> str_lower silent_env (path_suffix silent_env (py ''speech.wav'')) \<in> supported_formats
   \<and> strip [32, 10, 9] = []
   \<and> fst (transcribe_audio silent_env (py ''speech.wav'') (py ''base'') True
            (world_at_validation silent_env
               (initial_world\<lparr>files := [py ''output.txt'' \<mapsto> [1, 2, 3]]\<rparr>))) = Some []
   \<and> fst (program silent_env
            \<lparr>audio_file = py ''speech.wav'', model = py ''base'', output_flag = True,
             verbose = False\<rparr>
            (initial_world\<lparr>files := [py ''output.txt'' \<mapsto> [1, 2, 3]]\<rparr>)) = 0
   \<and> files (snd (program silent_env
            \<lparr>audio_file = py ''speech.wav'', model = py ''base'', output_flag = True,
             verbose = False\<rparr>
            (initial_world\<lparr>files := [py ''output.txt'' \<mapsto> [1, 2, 3]]\<rparr>))) =
       [py ''output.txt'' \<mapsto> []]"
proof -
  let ?a = "\<lparr>audio_file = py ''speech.wav'', model = py ''base'', output_flag = True,
             verbose = False\<rparr>"
  let ?w = "initial_world\<lparr>files := [py ''output.txt'' \<mapsto> [1, 2, 3]]\<rparr>"
  have h1: "whisper_installed silent_env"
    by (simp add: silent_env_def example_env_def)
  have h2: "os_path_exists silent_env (audio_file ?a)"
    by (simp add: silent_env_def example_env_def)
  have h3: "str_lower silent_env (path_suffix silent_env (audio_file ?a)) \<in> supported_formats"
    by (simp add: silent_env_def example_env_def example_suffixes supported_formats_def)
  have h4: "load_model silent_env (model ?a) = Inr 1"
    by (simp add: silent_env_def example_env_def)
  have h5: "load_audio silent_env (world_at_validation silent_env ?w) (audio_file ?a) =
              Inr [32767 / 32768, - 1, 0]"
  proof -
    have "patched_load_audio silent_env (py ''/opt/ffmpeg/ffmpeg'') (audio_file ?a) 16000 =
          patched_load_audio example_env (py ''/opt/ffmpeg/ffmpeg'') (audio_file ?a) 16000"
      by (simp add: patched_load_audio_def silent_env_def)
    moreover have "get_ffmpeg_exe silent_env = Some (py ''/opt/ffmpeg/ffmpeg'')"
      by (simp add: silent_env_def example_env_def)
    moreover have "py ''/opt/ffmpeg/ffmpeg'' \<noteq> []"
      by (simp add: py_def)
    ultimately show ?thesis
      by (simp add: load_audio_installed ex_patched)
  qed
  have h6: "model_infer silent_env 1 [32767 / 32768, - 1, 0] (py ''bn'') =
              Inr [py ''text'' \<mapsto> [32, 10, 9]]"
    by (simp add: silent_env_def)
  have h7: "[py ''text'' \<mapsto> [32, 10, 9 :: nat]] (py ''text'') = Some [32, 10, 9]"
    by simp
  have h8: "strip [32, 10, 9] = []"
    by (rule ex_strip(2))
  have h9: "output_flag ?a \<Longrightarrow> open_write silent_env (py ''output.txt'') = None"
    by (simp add: silent_env_def example_env_def)
  from empty_transcript_is_success [OF h1 h2 h3 h4 h5 h6 h7 h8 h9]
  have "fst (transcribe_audio silent_env (audio_file ?a) (model ?a) (output_flag ?a)
              (world_at_validation silent_env ?w)) = Some []"
    "fst (program silent_env ?a ?w) = 0"
    "files (snd (program silent_env ?a ?w)) =
       (if output_flag ?a then (files ?w)(py ''output.txt'' \<mapsto> []) else files ?w)"
    by blast+
  then have r: "fst (transcribe_audio silent_env (py ''speech.wav'') (py ''base'') True
              (world_at_validation silent_env ?w)) = Some []"
    "fst (program silent_env ?a ?w) = 0"
    "files (snd (program silent_env ?a ?w)) = [py ''output.txt'' \<mapsto> []]"
    by (simp_all add: initial_world_def)
  from h1 h2 h3 h8 r show ?thesis
    by simp
qed

subsection \<open>Failures of the decoder and of the runner\<close>

lemma patched_load_audio_nonzero_exit:
  assumes "subprocess_run env (ffmpeg_cmd ffmpeg_path file sr) = Inr cp"
    and "returncode cp \<noteq> 0"
  shows "patched_load_audio env ffmpeg_path file sr =
           (case utf8_decode (proc_stderr cp) of
              None \<Rightarrow> Inl (OtherException (py ''invalid utf-8 in standard error''))
            | Some msg \<Rightarrow> Inl (RuntimeError (py ''Failed to load audio: '' @ msg)))"
  using assms by (simp add: patched_load_audio_def)

lemma patched_load_audio_runtime_error:
  assumes "subprocess_run env (ffmpeg_cmd ffmpeg_path file sr) = Inr cp"
    and "returncode cp \<noteq> 0"
    and "utf8_decode (proc_stderr cp) = Some msg"
  shows "patched_load_audio env ffmpeg_path file sr =
           Inl (RuntimeError (py ''Failed to load audio: '' @ msg))"
  using assms by (simp add: patched_load_audio_def)

lemma transcribe_body_load_audio_fails:
  assumes "load_model env model_size = Inr m"
    and "load_audio env w audio_path = Inl e"
  shows "fst (transcribe_body env audio_path model_size save_output w) = Inl e"
  using assms by (simp add: transcribe_body_def whisper_transcribe_eq Let_def)

lemma transcribe_audio_failure:
  assumes "fst (transcribe_body env audio_path model_size save_output w) = Inl e"
  shows "fst (transcribe_audio env audio_path model_size save_output w) = None"
    and "stdout (snd (transcribe_audio env audio_path model_size save_output w)) =
           stdout (snd (transcribe_body env audio_path model_size save_output w)) @
           [failure_message audio_path e]"
    and "last (stdout (snd (transcribe_audio env audio_path model_size save_output w))) =
           failure_message audio_path e"
  using assms by (simp_all add: transcribe_audio_eq)

lemma runner_catches_every_exception:
  "transcribe_audio env audio_path model_size save_output w =
     (case transcribe_body env audio_path model_size save_output w of
        (Inr t, w') \<Rightarrow> (Some t, w')
      | (Inl e, w') \<Rightarrow> (None, print (failure_message audio_path e) w'))"
  by (simp add: transcribe_audio_def)

lemma failure_messages_distinct:
  "failure_message a (FileNotFoundError x) \<noteq> failure_message a' (RuntimeError y)"
  "failure_message a (FileNotFoundError x) \<noteq> failure_message a' (OtherException y)"
  "failure_message a (RuntimeError x) \<noteq> failure_message a' (OtherException y)"
  by (simp_all add: failure_message_def py_def)

lemma decoder_failure_exit_status:
  assumes "whisper_installed env"
    and "fst (validate_audio_file env (audio_file a) (world_at_validation env w))"
    and "get_ffmpeg_exe env = Some p" and "p \<noteq> []"
    and "subprocess_run env (ffmpeg_cmd p (audio_file a) 16000) = Inr cp"
    and "returncode cp \<noteq> 0"
  shows "fst (transcribe_audio env (audio_file a) (model a) (output_flag a)
               (world_at_validation env w)) = None"
    and "fst (program env a w) = 1"
proof -
  let ?w = "world_at_validation env w"
  obtain e where e: "load_audio env ?w (audio_file a) = Inl e"
    using patched_load_audio_nonzero_exit [OF assms(5,6)] assms(3,4)
    by (cases "utf8_decode (proc_stderr cp)") (simp_all add: load_audio_installed)
  have "\<exists>e'. fst (transcribe_body env (audio_file a) (model a) (output_flag a) ?w) = Inl e'"
  proof (cases "load_model env (model a)")
    case (Inl e')
    then show ?thesis
      by (simp add: transcribe_body_def Let_def)
  next
    case (Inr m)
    from transcribe_body_load_audio_fails [OF Inr e] show ?thesis
      by blast
  qed
  then show "fst (transcribe_audio env (audio_file a) (model a) (output_flag a) ?w) = None"
    by (simp add: transcribe_audio_None_iff)
  then show "fst (program env a w) = 1"
    by (simp add: program_exit_code)
qed


text \<open>
  C3. When the decoder exits with a non-zero status and its standard error is valid
  UTF-8, the loader raises RuntimeError with that text after "Failed to load audio: "
  (\<open>patched_load_audio_runtime_error\<close>), and in every case the runner returns \<open>None\<close> and
  the exit status is 1 (\<open>decoder_failure_exit_status\<close>). But the loader decodes the
  captured standard error strictly, inside the handler: when the octets are not valid
  UTF-8 the exception that leaves the loader is the decoding error and not RuntimeError,
  the standard-error text is lost, and the runner reports it through its last clause.
  Here the decoder names a title in Latin-1.
\<close>

theorem undecodable_stderr_is_not_runtime_error:
  "utf8_decode (ascii_bytes ''title: Caf'' @ [0xE9, 10] @
                ascii_bytes ''speech.wav: Invalid data found when processing input'') = None
   \<and> patched_load_audio undecodable_env (py ''/opt/ffmpeg/ffmpeg'') (py ''speech.wav'') 16000 =
       Inl (OtherException (py ''invalid utf-8 in standard error''))
   \<and> fst (transcribe_audio undecodable_env (py ''speech.wav'') (py ''base'') False
            (world_at_validation undecodable_env initial_world)) = None
   \<and> last (stdout (snd (transcribe_audio undecodable_env (py ''speech.wav'') (py ''base'') False
            (world_at_validation undecodable_env initial_world)))) =
       0x274C # py '' Error during transcription: invalid utf-8 in standard error''
   \<and> fst (program undecodable_env
            \<lparr>audio_file = py ''speech.wav'', model = py ''base'', output_flag = False,
             verbose = False\<rparr> initial_world) = 1"
proof -
  let ?w = "world_at_validation undecodable_env initial_world"
  let ?a = "\<lparr>audio_file = py ''speech.wav'', model = py ''base'', output_flag = False,
             verbose = False\<rparr>"
  let ?cp = "\<lparr>returncode = 1, proc_stdout = [],
        proc_stderr = ascii_bytes ''title: Caf'' @ [0xE9, 10] @
                      ascii_bytes ''speech.wav: Invalid data found when processing input''\<rparr>"
  have run: "\<And>cmd. subprocess_run undecodable_env cmd = Inr ?cp"
    by (simp add: undecodable_env_def)
  have rc: "returncode ?cp \<noteq> 0"
    by simp
  have pl: "patched_load_audio undecodable_env (py ''/opt/ffmpeg/ffmpeg'') (py ''speech.wav'') 16000 =
       Inl (OtherException (py ''invalid utf-8 in standard error''))"
  proof -
    have dec: "utf8_decode (proc_stderr ?cp) = None"
      using ex_decode_bad by simp
    show ?thesis
      unfolding patched_load_audio_nonzero_exit [OF run rc] dec by simp
  qed
  have exe: "get_ffmpeg_exe undecodable_env = Some (py ''/opt/ffmpeg/ffmpeg'')"
    by (simp add: undecodable_env_def example_env_def)
  have ne: "py ''/opt/ffmpeg/ffmpeg'' \<noteq> []"
    by (simp add: py_def)
  have la: "load_audio undecodable_env ?w (py ''speech.wav'') =
       Inl (OtherException (py ''invalid utf-8 in standard error''))"
    using pl by (simp add: load_audio_installed [OF exe ne])
  have lm: "load_model undecodable_env (py ''base'') = Inr 1"
    by (simp add: undecodable_env_def example_env_def)
  note body = transcribe_body_load_audio_fails [OF lm la, of False]
  have t: "fst (transcribe_audio undecodable_env (py ''speech.wav'') (py ''base'') False ?w) = None"
    by (rule transcribe_audio_failure(1) [OF body])
  have msg: "last (stdout (snd (transcribe_audio undecodable_env (py ''speech.wav'') (py ''base'')
       False ?w))) = 0x274C # py '' Error during transcription: invalid utf-8 in standard error''"
    using transcribe_audio_failure(3) [OF body] by (simp add: failure_message_def py_def)
  have inst: "whisper_installed undecodable_env"
    by (simp add: undecodable_env_def example_env_def)
  have valid: "fst (validate_audio_file undecodable_env (audio_file ?a) ?w)"
    by (simp add: validate_audio_file_fst)
       (simp add: undecodable_env_def example_env_def example_suffixes supported_formats_def)
  have code: "fst (program undecodable_env ?a initial_world) = 1"
    using t by (simp add: program_exit_code)
  from ex_decode_bad pl t msg code show ?thesis
    by (intro conjI)
qed

text \<open>
  C6. Every exception that leaves the body of the runner is caught: the runner returns
  \<open>None\<close> after one line of diagnostic (\<open>runner_catches_every_exception\<close>), and the
  diagnostics of the three clauses differ from each other
  (\<open>failure_messages_distinct\<close>). But the clause is chosen by the class of the
  exception, not by what failed. An input file that is gone when the decoder opens it
  makes the decoder exit with a non-zero status, which the loader turns into
  RuntimeError: the runner reports it with the diagnostic of a model that failed to
  load, and the diagnostic of the missing audio file is not printed.
\<close>

theorem vanished_input_reported_as_model_failure:
  "patched_load_audio vanished_env (py ''/opt/ffmpeg/ffmpeg'') (py ''speech.wav'') 16000 =
     Inl (RuntimeError (py ''Failed to load audio: speech.wav: No such file or directory''))
   \<and> fst (transcribe_audio vanished_env (py ''speech.wav'') (py ''base'') False
            (world_at_validation vanished_env initial_world)) = None
   \<and> last (stdout (snd (transcribe_audio vanished_env (py ''speech.wav'') (py ''base'') False
            (world_at_validation vanished_env initial_world)))) =
       0x274C # py '' Error: Failed to load Whisper model. Failed to load audio: speech.wav: No such file or directory''
   \<and> last (stdout (snd (transcribe_audio vanished_env (py ''speech.wav'') (py ''base'') False
            (world_at_validation vanished_env initial_world)))) \<noteq>
       0x274C # py '' Error: Audio file '' @ [39] @ py ''speech.wav'' @ [39] @ py '' not found.''"
proof -
  let ?w = "world_at_validation vanished_env initial_world"
  let ?cp = "\<lparr>returncode = 1, proc_stdout = [],
        proc_stderr = ascii_bytes ''speech.wav: No such file or directory''\<rparr>"
  have run: "\<And>cmd. subprocess_run vanished_env cmd = Inr ?cp"
    by (simp add: vanished_env_def)
  have rc: "returncode ?cp \<noteq> 0"
    by simp
  have dec: "utf8_decode (proc_stderr ?cp) = Some (py ''speech.wav: No such file or directory'')"
    by (simp add: ex_decode_good)
  have pl: "patched_load_audio vanished_env (py ''/opt/ffmpeg/ffmpeg'') (py ''speech.wav'') 16000 =
     Inl (RuntimeError (py ''Failed to load audio: speech.wav: No such file or directory''))"
    using patched_load_audio_runtime_error [OF run rc dec] by (simp add: py_def)
  have exe: "get_ffmpeg_exe vanished_env = Some (py ''/opt/ffmpeg/ffmpeg'')"
    by (simp add: vanished_env_def example_env_def)
  have ne: "py ''/opt/ffmpeg/ffmpeg'' \<noteq> []"
    by (simp add: py_def)
  have la: "load_audio vanished_env ?w (py ''speech.wav'') =
     Inl (RuntimeError (py ''Failed to load audio: speech.wav: No such file or directory''))"
    using pl by (simp add: load_audio_installed [OF exe ne])
  have lm: "load_model vanished_env (py ''base'') = Inr 1"
    by (simp add: vanished_env_def example_env_def)
  note body = transcribe_body_load_audio_fails [OF lm la, of False]
  have t: "fst (transcribe_audio vanished_env (py ''speech.wav'') (py ''base'') False ?w) = None"
    by (rule transcribe_audio_failure(1) [OF body])
  have msg: "last (stdout (snd (transcribe_audio vanished_env (py ''speech.wav'') (py ''base'')
       False ?w))) =
       0x274C # py '' Error: Failed to load Whisper model. Failed to load audio: speech.wav: No such file or directory''"
    using transcribe_audio_failure(3) [OF body] by (simp add: failure_message_def py_def)
  have diff: "0x274C # py '' Error: Failed to load Whisper model. Failed to load audio: speech.wav: No such file or directory'' \<noteq>
       0x274C # py '' Error: Audio file '' @ [39] @ py ''speech.wav'' @ [39] @ py '' not found.''"
    by (simp add: py_def)
  from pl t msg diff show ?thesis
    by simp
qed

end
